theory Spec2Isabelle
  imports Complex_Main "HOL-Library.Word"
begin

section \<open>The LLDB trace agent: commands.py\<close>

text \<open>
  A shallow embedding of \<^verbatim>\<open>ghidralldb/commands.py\<close>. Python integers are \<^typ>\<open>int\<close>,
  strings are \<^typ>\<open>string\<close>, byte sequences are lists of 8-bit words, and every
  exception the source raises is a value of the type \<open>error\<close>.
\<close>

subsection \<open>Exceptions\<close>

datatype error =
    RuntimeError string
  | ValueError string
  | IndexError string
  | AttributeError string
  | TypeError string
  | AssertionError string
  | OSError string
  | SystemExit string
  | HostError string

subsection \<open>Formatting integers\<close>

text \<open>
  \<^verbatim>\<open>'{procnum}'.format(procnum=n)\<close> renders a Python integer in decimal, with a
  leading minus sign when it is negative.
\<close>

definition digit_char :: "nat \<Rightarrow> char" where
  "digit_char d = ''0123456789abcdef'' ! d"

fun str_nat :: "nat \<Rightarrow> string" where
  "str_nat n = (if n < 10 then [digit_char n] else str_nat (n div 10) @ [digit_char (n mod 10)])"

declare str_nat.simps [simp del]

definition str_int :: "int \<Rightarrow> string" where
  "str_int i = (if i < 0 then CHR ''-'' # str_nat (nat (- i)) else str_nat (nat i))"

subsection \<open>Path patterns\<close>

text \<open>
  Each pattern of the source is a format string with named fields; it is modelled as the
  function of its fields, built by the same concatenations as the source's constants.
\<close>

definition PAGE_SIZE :: int where
  "PAGE_SIZE = 4096"

definition PROCESSES_PATH :: string where
  "PROCESSES_PATH = ''Processes''"

definition PROCESS_KEY_PATTERN :: "int \<Rightarrow> string" where
  "PROCESS_KEY_PATTERN procnum = ''['' @ str_int procnum @ '']''"

definition PROCESS_PATTERN :: "int \<Rightarrow> string" where
  "PROCESS_PATTERN procnum = PROCESSES_PATH @ PROCESS_KEY_PATTERN procnum"

definition THREADS_PATTERN :: "int \<Rightarrow> string" where
  "THREADS_PATTERN procnum = PROCESS_PATTERN procnum @ ''.Threads''"

definition THREAD_KEY_PATTERN :: "int \<Rightarrow> string" where
  "THREAD_KEY_PATTERN tnum = ''['' @ str_int tnum @ '']''"

definition THREAD_PATTERN :: "int \<Rightarrow> int \<Rightarrow> string" where
  "THREAD_PATTERN procnum tnum = THREADS_PATTERN procnum @ THREAD_KEY_PATTERN tnum"

definition STACK_PATTERN :: "int \<Rightarrow> int \<Rightarrow> string" where
  "STACK_PATTERN procnum tnum = THREAD_PATTERN procnum tnum @ ''.Stack''"

definition FRAME_KEY_PATTERN :: "int \<Rightarrow> string" where
  "FRAME_KEY_PATTERN level = ''['' @ str_int level @ '']''"

definition FRAME_PATTERN :: "int \<Rightarrow> int \<Rightarrow> int \<Rightarrow> string" where
  "FRAME_PATTERN procnum tnum level = STACK_PATTERN procnum tnum @ FRAME_KEY_PATTERN level"

subsection \<open>Page quantization\<close>

text \<open>Python's \<^verbatim>\<open>//\<close> is floor division, as \<open>div\<close> on \<^typ>\<open>int\<close> is.\<close>

definition quantize_pages :: "int \<Rightarrow> int \<Rightarrow> int \<times> int" where
  "quantize_pages start end =
     (start div PAGE_SIZE * PAGE_SIZE, (end + PAGE_SIZE - 1) div PAGE_SIZE * PAGE_SIZE)"

subsection \<open>Byte order and register bytes\<close>

text \<open>The values of LLDB's \<^verbatim>\<open>ByteOrder\<close> enumeration.\<close>

definition eByteOrderInvalid :: int where "eByteOrderInvalid = 0"
definition eByteOrderBig :: int where "eByteOrderBig = 1"
definition eByteOrderPDP :: int where "eByteOrderPDP = 2"
definition eByteOrderLittle :: int where "eByteOrderLittle = 4"

datatype order_name = big | little

record SBData =
  byte_order :: int
  uint8s :: "8 word list"

definition get_byte_order :: "int \<Rightarrow> error + order_name" where
  "get_byte_order order =
     (if order = eByteOrderBig then Inr big
      else if order = eByteOrderLittle then Inr little
      else if order = eByteOrderPDP then Inl (ValueError ''PDP byte order unsupported'')
      else Inl (ValueError (''Unrecognized order: '' @ str_int order)))"

text \<open>\<^verbatim>\<open>int.from_bytes(bs, 'big')\<close>: the first byte is the most significant.\<close>

definition int_from_bytes :: "8 word list \<Rightarrow> order_name \<Rightarrow> int" where
  "int_from_bytes bs order =
     foldl (\<lambda>acc b. acc * 256 + uint b) 0 (case order of big \<Rightarrow> bs | little \<Rightarrow> rev bs)"

definition data_to_int :: "SBData \<Rightarrow> error + int" where
  "data_to_int data =
     (case get_byte_order (byte_order data) of
        Inl e \<Rightarrow> Inl e
      | Inr order \<Rightarrow> Inr (int_from_bytes (uint8s data) order))"

definition data_to_reg_bytes :: "SBData \<Rightarrow> error + 8 word list" where
  "data_to_reg_bytes data =
     (case get_byte_order (byte_order data) of
        Inl e \<Rightarrow> Inl e
      | Inr order \<Rightarrow> (if order = little then Inr (rev (uint8s data)) else Inr (uint8s data)))"

text \<open>
  \<^verbatim>\<open>f'{start:x}'\<close> renders an integer in lowercase hexadecimal, and
  \<^verbatim>\<open>'{start:08x}'\<close> pads it with zeros on the left to eight characters (the sign
  counts as one of them).
\<close>

fun hex_nat :: "nat \<Rightarrow> string" where
  "hex_nat n = (if n < 16 then [digit_char n] else hex_nat (n div 16) @ [digit_char (n mod 16)])"

declare hex_nat.simps [simp del]

definition hex_int :: "int \<Rightarrow> string" where
  "hex_int i = (if i < 0 then CHR ''-'' # hex_nat (nat (- i)) else hex_nat (nat i))"

definition hex08_int :: "int \<Rightarrow> string" where
  "hex08_int i =
     (if i < 0 then CHR ''-'' # replicate (7 - length (hex_nat (nat (- i)))) CHR ''0'' @ hex_nat (nat (- i))
      else replicate (8 - length (hex_nat (nat i))) CHR ''0'' @ hex_nat (nat i))"

text \<open>\<^verbatim>\<open>hex(n)\<close> and \<^verbatim>\<open>f'{n:o}'\<close>.\<close>

definition py_hex :: "int \<Rightarrow> string" where
  "py_hex i = (if i < 0 then ''-0x'' @ hex_nat (nat (- i)) else ''0x'' @ hex_nat (nat i))"

fun oct_nat :: "nat \<Rightarrow> string" where
  "oct_nat n = (if n < 8 then [digit_char n] else oct_nat (n div 8) @ [digit_char (n mod 8)])"

declare oct_nat.simps [simp del]

definition oct_int :: "int \<Rightarrow> string" where
  "oct_int i = (if i < 0 then CHR ''-'' # oct_nat (nat (- i)) else oct_nat (nat i))"

subsection \<open>The other path patterns\<close>

definition DEFAULT_REGISTER_BANK :: string where
  "DEFAULT_REGISTER_BANK = ''General Purpose Registers''"

definition AVAILABLES_PATH :: string where
  "AVAILABLES_PATH = ''Available''"

definition AVAILABLE_KEY_PATTERN :: "int \<Rightarrow> string" where
  "AVAILABLE_KEY_PATTERN pid = ''['' @ str_int pid @ '']''"

definition AVAILABLE_PATTERN :: "int \<Rightarrow> string" where
  "AVAILABLE_PATTERN pid = AVAILABLES_PATH @ AVAILABLE_KEY_PATTERN pid"

definition BREAKPOINT_KEY_PATTERN :: "int \<Rightarrow> string" where
  "BREAKPOINT_KEY_PATTERN breaknum = ''['' @ str_int breaknum @ '']''"

definition WATCHPOINT_KEY_PATTERN :: "int \<Rightarrow> string" where
  "WATCHPOINT_KEY_PATTERN watchnum = ''['' @ str_int watchnum @ '']''"

definition BREAK_LOC_KEY_PATTERN :: "int \<Rightarrow> string" where
  "BREAK_LOC_KEY_PATTERN locnum = ''['' @ str_int locnum @ '']''"

definition PROC_WATCHES_PATTERN :: "int \<Rightarrow> string" where
  "PROC_WATCHES_PATTERN procnum = PROCESS_PATTERN procnum @ ''.Watchpoints''"

definition PROC_WATCH_PATTERN :: "int \<Rightarrow> int \<Rightarrow> string" where
  "PROC_WATCH_PATTERN procnum watchnum =
     PROC_WATCHES_PATTERN procnum @ WATCHPOINT_KEY_PATTERN watchnum"

definition PROC_BREAKS_PATTERN :: "int \<Rightarrow> string" where
  "PROC_BREAKS_PATTERN procnum = PROCESS_PATTERN procnum @ ''.Breakpoints''"

definition PROC_BREAK_PATTERN :: "int \<Rightarrow> int \<Rightarrow> string" where
  "PROC_BREAK_PATTERN procnum breaknum =
     PROC_BREAKS_PATTERN procnum @ BREAKPOINT_KEY_PATTERN breaknum"

definition ENV_PATTERN :: "int \<Rightarrow> string" where
  "ENV_PATTERN procnum = PROCESS_PATTERN procnum @ ''.Environment''"

definition REGS_PATTERN :: "int \<Rightarrow> int \<Rightarrow> int \<Rightarrow> string" where
  "REGS_PATTERN procnum tnum level = FRAME_PATTERN procnum tnum level @ ''.Registers''"

definition BANK_PATTERN :: "int \<Rightarrow> int \<Rightarrow> int \<Rightarrow> string \<Rightarrow> string" where
  "BANK_PATTERN procnum tnum level bank = REGS_PATTERN procnum tnum level @ ''.'' @ bank"

definition MEMORY_PATTERN :: "int \<Rightarrow> string" where
  "MEMORY_PATTERN procnum = PROCESS_PATTERN procnum @ ''.Memory''"

definition REGION_KEY_PATTERN :: "int \<Rightarrow> string" where
  "REGION_KEY_PATTERN start = ''['' @ hex08_int start @ '']''"

definition REGION_PATTERN :: "int \<Rightarrow> int \<Rightarrow> string" where
  "REGION_PATTERN procnum start = MEMORY_PATTERN procnum @ REGION_KEY_PATTERN start"

definition MODULES_PATTERN :: "int \<Rightarrow> string" where
  "MODULES_PATTERN procnum = PROCESS_PATTERN procnum @ ''.Modules''"

definition MODULE_KEY_PATTERN :: "string \<Rightarrow> string" where
  "MODULE_KEY_PATTERN modpath = ''['' @ modpath @ '']''"

definition MODULE_PATTERN :: "int \<Rightarrow> string \<Rightarrow> string" where
  "MODULE_PATTERN procnum modpath = MODULES_PATTERN procnum @ MODULE_KEY_PATTERN modpath"

definition SECTIONS_ADD_PATTERN :: string where
  "SECTIONS_ADD_PATTERN = ''.Sections''"

definition SECTION_KEY_PATTERN :: "string \<Rightarrow> string" where
  "SECTION_KEY_PATTERN secname = ''['' @ secname @ '']''"

definition SECTION_ADD_PATTERN :: "string \<Rightarrow> string" where
  "SECTION_ADD_PATTERN secname = SECTIONS_ADD_PATTERN @ SECTION_KEY_PATTERN secname"

subsection \<open>The objects of the debugger and of the trace client\<close>

text \<open>
  The debugger (LLDB), the helper modules \<^verbatim>\<open>util\<close> and \<^verbatim>\<open>arch\<close> and the trace client
  are outside this file. Their objects are records of the attributes this file reads, and
  what they answer is collected in the record \<open>host\<close>, a parameter of every function
  that asks them. The arguments of a command are the list \<^verbatim>\<open>shlex.split\<close> returns.
\<close>

type_synonym bytes = "8 word list"

record Address =
  space :: string
  offset :: int

datatype AddressRange = Address_extend Address int

datatype RegVal = RegVal string bytes

type_synonym DefaultMemoryMapper = "int \<Rightarrow> string \<times> Address"

record DefaultRegisterMapper =
  map_name :: "string \<Rightarrow> string"
  map_value :: "string \<Rightarrow> bytes \<Rightarrow> RegVal"

record Extra =
  memory_mapper :: "DefaultMemoryMapper option"
  register_mapper :: "DefaultRegisterMapper option"

record Trace =
  trace_name :: string
  extra :: Extra

datatype Client = Client string

datatype Transaction = Transaction string bool

record SBAddress =
  IsValid :: bool
  load_address :: int

text \<open>
  LLDB's basic type codes are only compared with each other, so they are an enumeration;
  the codes this file never names are \<open>eBasicTypeOther\<close>.
\<close>

datatype BasicType =
    eBasicTypeInvalid
  | eBasicTypeVoid
  | eBasicTypeChar
  | eBasicTypeSignedChar
  | eBasicTypeUnsignedChar
  | eBasicTypeSignedWChar
  | eBasicTypeUnsignedWChar
  | eBasicTypeShort
  | eBasicTypeUnsignedShort
  | eBasicTypeInt
  | eBasicTypeUnsignedInt
  | eBasicTypeLong
  | eBasicTypeUnsignedLong
  | eBasicTypeLongLong
  | eBasicTypeUnsignedLongLong
  | eBasicTypeBool
  | eBasicTypeOther

text \<open>
  An \<^verbatim>\<open>SBType\<close> is a typedef of another type, or a type with its basic type code,
  its name, its array element type (when it is an array type) and whether it is a pointer.
\<close>

datatype SBType =
    TypedefType SBType
  | PlainType (GetBasicType: BasicType) (GetTypeName: string)
      (GetArrayElementType: "SBType option") (IsPointerType: bool)

datatype SBValue = SBValue
  (GetName: "string option")
  (GetType: SBType)
  (GetValue: "string option")
  (GetValueAsUnsigned: int)
  (GetSummary: "string option")
  (GetData: SBData)
  (GetAddress: SBAddress)
  (size_bytes: int)
  (str_value: string)
  (children: "SBValue list")

record SBFrame =
  GetFrameID :: int
  GetPC :: int
  GetFunctionName :: "string option"
  GetRegisters :: "SBValue list"
  frame_description :: string

record SBThread =
  GetThreadID :: int
  GetThreadName :: "string option"
  frames :: "SBFrame list"
  IsSuspended :: bool
  IsStopped :: bool
  thread_description :: string

record SBProcess =
  GetProcessID :: int
  is_running :: bool
  is_stopped :: bool
  state :: int
  threads :: "SBThread list"
  ReadMemory :: "int \<Rightarrow> int \<Rightarrow> bytes option"
  GetMemoryRegionInfo_Success :: "int \<Rightarrow> bool"

record SBBreakpointLocation =
  GetLoadAddress :: int
  loc_IsEnabled :: bool

record SBBreakpoint =
  bpt_GetID :: int
  IsHardware :: bool
  bpt_description :: string
  GetCommandLineCommands :: "string list option"
  bpt_GetCondition :: "string option"
  bpt_GetHitCount :: int
  bpt_GetIgnoreCount :: int
  IsOneShot :: bool
  bpt_IsEnabled :: bool
  location_is_not_None :: bool
  get_locations :: "SBBreakpointLocation list"

record SBWatchpoint =
  wpt_GetID :: int
  wpt_description :: string
  GetWatchAddress :: int
  GetWatchSize :: int
  wpt_GetCondition :: "string option"
  wpt_GetHitCount :: int
  wpt_GetIgnoreCount :: int
  GetHardwareIndex :: int
  wpt_IsEnabled :: bool

record SBTarget =
  GetNumModules :: int
  executable_basename :: "string option"
  breakpoints :: "SBBreakpoint list"
  watchpoints :: "SBWatchpoint list"

text \<open>The records of \<^verbatim>\<open>util\<close>: a memory region, a module and its sections.\<close>

record Region =
  region_start :: int
  region_end :: int
  region_offset :: int
  perms :: "string option"
  objfile :: string

record Section =
  section_start :: int
  section_end :: int
  section_offset :: int
  attrs :: "string list"

record Module =
  mod_name :: string
  mod_base :: int
  mod_max :: int
  sections :: "(string \<times> Section) list"

text \<open>What \<^verbatim>\<open>trace.put_bytes\<close> hands back: a count, or a future of one.\<close>

datatype put_bytes_count = Count int | FutureDone int | FuturePending

subsection \<open>What the collaborators answer\<close>

record util_host =
  parse_and_eval :: "string \<Rightarrow> error + int"
  get_eval :: "string \<Rightarrow> error + SBValue"
  get_process :: SBProcess
  get_target :: SBTarget
  selected_thread :: "SBThread option"
  selected_frame :: "SBFrame option"
  get_convenience_variable :: "string \<Rightarrow> string"
  LLDB_VERSION_full :: string
  LLDB_VERSION_display :: string
  get_regions :: "Region list option"
  full_mem :: Region
  get_modules :: "(string \<times> Module) list"

record arch_host =
  compute_ghidra_lcsp :: "string \<times> string"
  compute_memory_mapper :: "string \<Rightarrow> DefaultMemoryMapper"
  compute_register_mapper :: "string \<Rightarrow> DefaultRegisterMapper"
  get_arch :: string
  get_osabi :: string
  get_endian :: string

record lib_host =
  py_int :: "string \<Rightarrow> error + int"
  socket_connect :: "string \<Rightarrow> int \<Rightarrow> error option"
  socket_accept :: "string \<Rightarrow> int \<Rightarrow> error + ((string \<times> int) \<times> (string \<times> int))"
  currentframe_is_None :: bool
  read_schema_xml :: "error + string"
  process_iter :: "(int \<times> string) list"
  retain_values_parse_args :: "string list \<Rightarrow> error + (string \<times> string list)"
  decode :: "bytes \<Rightarrow> string \<Rightarrow> error + string"

record client_host =
  validate_state :: "string \<Rightarrow> error option"
  put_bytes_reply :: "Address \<Rightarrow> bytes \<Rightarrow> put_bytes_count"
  object_id :: "string \<Rightarrow> string"
  insert_span :: "string \<Rightarrow> string"
  disassemble_length :: "Address \<Rightarrow> string"

record host =
  util :: util_host
  arch :: arch_host
  lib :: lib_host
  remote :: client_host

subsection \<open>The session state and the calls a command issues\<close>

record State =
  client :: "Client option"
  trace :: "Trace option"
  tx :: "Transaction option"

datatype tagged_value =
    VNone
  | VBool bool
  | VInt int
  | VStr string
  | VBytes bytes
  | VAddress Address
  | VRange AddressRange
  | VBoolList "bool list"
  | VIntList "int list"
  | VStrList "string list"
  | VObject string

text \<open>
  Every call that leaves this file for the target or for the trace is recorded, in the
  order it is issued. The trace client and the store behind it are not modelled further: a
  call to them is taken to return.
\<close>

datatype trace_call =
    ClientClose
  | TraceClose
  | TraceSave
  | TraceSnapshot string "int option"
  | CreateTrace string string string
  | CreateRootObject string string
  | StartTx Transaction
  | TxCommit Transaction
  | TxAbort Transaction
  | CreateOverlaySpace string string
  | PutBytes Address bytes
  | SetMemoryState AddressRange string
  | DeleteBytes AddressRange
  | PutRegisters string "RegVal list"
  | DeleteRegisters string "string list"
  | CreateObject string
  | InsertObject string
  | RemoveObject string
  | SetValue string string tagged_value "string option"
  | RetainValues string "string list" string
  | Disassemble Address
  | Activate string

datatype event =
    Store trace_call
  | ProcReadMemory int int
  | SetConvenienceVariable string string
  | HooksCall string
  | TimeSleep
  | PutCString string
  | Print string

datatype return_status = Cleared | SuccessFinishNoResult | Failed string

record world =
  STATE :: State
  log :: "event list"
  result :: return_status

subsection \<open>Raising, returning and sequencing\<close>

text \<open>
  A function of the source that may raise and may change the session or issue calls is a
  function from the world to an outcome (\<open>Inl\<close> the exception raised) and the world it leaves.
\<close>

type_synonym 'a action = "world \<Rightarrow> (error + 'a) \<times> world"

definition return :: "'a \<Rightarrow> 'a action" where
  "return x w = (Inr x, w)"

definition raise :: "error \<Rightarrow> 'a action" where
  "raise e w = (Inl e, w)"

definition bind :: "'a action \<Rightarrow> ('a \<Rightarrow> 'b action) \<Rightarrow> 'b action" where
  "bind m f w = (case m w of (Inl e, w') \<Rightarrow> (Inl e, w') | (Inr x, w') \<Rightarrow> f x w')"

definition seq :: "unit action \<Rightarrow> 'b action \<Rightarrow> 'b action" where
  "seq m n = bind m (\<lambda>_. n)"

definition lift :: "error + 'a \<Rightarrow> 'a action" where
  "lift r w = (r, w)"

definition emit :: "event \<Rightarrow> unit action" where
  "emit ev w = (Inr (), w\<lparr>log := log w @ [ev]\<rparr>)"

definition store :: "trace_call \<Rightarrow> unit action" where
  "store c = emit (Store c)"

definition when_do :: "bool \<Rightarrow> unit action \<Rightarrow> unit action" where
  "when_do b m = (if b then m else return ())"

primrec for_each :: "'a list \<Rightarrow> ('a \<Rightarrow> unit action) \<Rightarrow> unit action" where
  "for_each [] f = return ()"
| "for_each (x # xs) f = seq (f x) (for_each xs f)"

text \<open>\<^verbatim>\<open>str(e)\<close>: the message of an exception.\<close>

fun str_error :: "error \<Rightarrow> string" where
  "str_error (RuntimeError m) = m"
| "str_error (ValueError m) = m"
| "str_error (IndexError m) = m"
| "str_error (AttributeError m) = m"
| "str_error (TypeError m) = m"
| "str_error (AssertionError m) = m"
| "str_error (OSError m) = m"
| "str_error (SystemExit m) = m"
| "str_error (HostError m) = m"

text \<open>
  The decorator \<^verbatim>\<open>convert_errors\<close>: the result object is cleared, the function runs, and
  the result records success, or the message of whatever was raised. Nothing is raised to
  the caller.
\<close>

definition convert_errors :: "unit action \<Rightarrow> world \<Rightarrow> world" where
  "convert_errors func w =
     (case func (w\<lparr>result := Cleared\<rparr>) of
        (Inr _, w') \<Rightarrow> w'\<lparr>result := SuccessFinishNoResult\<rparr>
      | (Inl e, w') \<Rightarrow> w'\<lparr>result := Failed (str_error e)\<rparr>)"

subsection \<open>The class State\<close>

definition require_client :: "Client action" where
  "require_client w =
     (case client (STATE w) of
        None \<Rightarrow> raise (RuntimeError ''Not connected'') w
      | Some c \<Rightarrow> return c w)"

definition require_no_client :: "unit action" where
  "require_no_client w =
     (if client (STATE w) \<noteq> None then raise (RuntimeError ''Already connected'') w
      else return () w)"

definition reset_tx :: "unit action" where
  "reset_tx w = (Inr (), w\<lparr>STATE := (STATE w)\<lparr>tx := None\<rparr>\<rparr>)"

definition reset_trace :: "unit action" where
  "reset_trace =
     seq (\<lambda>w. (Inr (), w\<lparr>STATE := (STATE w)\<lparr>trace := None\<rparr>\<rparr>))
       (seq (emit (SetConvenienceVariable ''_ghidra_tracing'' ''false'')) reset_tx)"

definition reset_client :: "unit action" where
  "reset_client =
     seq (\<lambda>w. (Inr (), w\<lparr>STATE := (STATE w)\<lparr>client := None\<rparr>\<rparr>)) reset_trace"

definition require_trace :: "Trace action" where
  "require_trace w =
     (case trace (STATE w) of
        None \<Rightarrow> raise (RuntimeError ''No trace active'') w
      | Some t \<Rightarrow> return t w)"

definition require_no_trace :: "unit action" where
  "require_no_trace w =
     (if trace (STATE w) \<noteq> None then raise (RuntimeError ''Trace already started'') w
      else return () w)"

definition require_tx :: "(Trace \<times> Transaction) action" where
  "require_tx =
     bind require_trace (\<lambda>trace w.
       case tx (STATE w) of
         None \<Rightarrow> raise (RuntimeError ''No transaction'') w
       | Some t \<Rightarrow> return (trace, t) w)"

definition require_no_tx :: "unit action" where
  "require_no_tx w =
     (if tx (STATE w) \<noteq> None then raise (RuntimeError ''Transaction already started'') w
      else return () w)"

text \<open>The class Extra.\<close>

definition require_mm :: "Extra \<Rightarrow> DefaultMemoryMapper action" where
  "require_mm ex =
     (case memory_mapper ex of
        None \<Rightarrow> raise (RuntimeError ''No memory mapper'')
      | Some m \<Rightarrow> return m)"

definition require_rm :: "Extra \<Rightarrow> DefaultRegisterMapper action" where
  "require_rm ex =
     (case register_mapper ex of
        None \<Rightarrow> raise (RuntimeError ''No register mapper'')
      | Some m \<Rightarrow> return m)"

subsection \<open>Connecting, tracing and transactions\<close>

text \<open>\<^verbatim>\<open>s.split(c)\<close> for a one-character separator.\<close>

fun split_on :: "char \<Rightarrow> string \<Rightarrow> string list" where
  "split_on c [] = [[]]"
| "split_on c (x # xs) =
     (if x = c then [] # split_on c xs
      else (case split_on c xs of p # ps \<Rightarrow> (x # p) # ps | [] \<Rightarrow> [[x]]))"

definition set_client :: "Client \<Rightarrow> unit action" where
  "set_client c w = (Inr (), w\<lparr>STATE := (STATE w)\<lparr>client := Some c\<rparr>\<rparr>)"

definition set_trace :: "Trace \<Rightarrow> unit action" where
  "set_trace t w = (Inr (), w\<lparr>STATE := (STATE w)\<lparr>trace := Some t\<rparr>\<rparr>)"

definition set_tx :: "Transaction \<Rightarrow> unit action" where
  "set_tx t w = (Inr (), w\<lparr>STATE := (STATE w)\<lparr>tx := Some t\<rparr>\<rparr>)"

text \<open>
  Inside \<^verbatim>\<open>try ... except ValueError\<close> both \<^verbatim>\<open>int(port)\<close> and the socket calls
  run, so a \<^verbatim>\<open>ValueError\<close> of either becomes the message about the port.
\<close>

definition ghidra_trace_connect :: "host \<Rightarrow> string list \<Rightarrow> world \<Rightarrow> world" where
  "ghidra_trace_connect h args =
     convert_errors
       (seq require_no_client
          (case args of
             [address] \<Rightarrow>
               (case split_on CHR '':'' address of
                  [host_name, port] \<Rightarrow>
                    (case py_int (lib h) port of
                       Inl e \<Rightarrow> raise (RuntimeError ''port must be numeric'')
                     | Inr n \<Rightarrow>
                         (case socket_connect (lib h) host_name n of
                            Some (ValueError m) \<Rightarrow> raise (RuntimeError ''port must be numeric'')
                          | Some e \<Rightarrow> raise e
                          | None \<Rightarrow>
                              set_client (Client (''lldb-'' @ LLDB_VERSION_full (util h)))))
                | _ \<Rightarrow> raise (RuntimeError ''ADDRESS must be HOST:PORT''))
           | _ \<Rightarrow> raise (RuntimeError ''Usage: ghidra trace connect ADDRESS'')))"

definition listen_on :: "host \<Rightarrow> string \<Rightarrow> string option \<Rightarrow> unit action" where
  "listen_on h host_name port =
     seq require_no_client
       (case (case port of None \<Rightarrow> Inr 0 | Some p \<Rightarrow> py_int (lib h) p) of
          Inl e \<Rightarrow> raise (RuntimeError ''PORT must be numeric'')
        | Inr n \<Rightarrow>
            (case socket_accept (lib h) host_name n of
               Inl (ValueError m) \<Rightarrow> raise (RuntimeError ''PORT must be numeric'')
             | Inl e \<Rightarrow> raise e
             | Inr ((bound_host, bound_port), (chost, cport)) \<Rightarrow>
                 seq (emit (Print (''Listening at '' @ bound_host @ '':'' @ str_int bound_port
                        @ ''...'')))
                   (seq (emit (Print (''Connection from '' @ chost @ '':'' @ str_int cport)))
                      (set_client (Client (LLDB_VERSION_display (util h)))))))"

definition ghidra_trace_listen :: "host \<Rightarrow> string list \<Rightarrow> world \<Rightarrow> world" where
  "ghidra_trace_listen h args =
     convert_errors
       (case args of
          [] \<Rightarrow> listen_on h ''0.0.0.0'' None
        | [address] \<Rightarrow>
            (case split_on CHR '':'' address of
               [port] \<Rightarrow> listen_on h ''0.0.0.0'' (Some port)
             | [host_name, port] \<Rightarrow> listen_on h host_name (Some port)
             | _ \<Rightarrow> raise (RuntimeError ''ADDRESS must be PORT or HOST:PORT''))
        | _ \<Rightarrow> raise (RuntimeError ''Usage: ghidra trace listen [ADDRESS]''))"

definition ghidra_trace_disconnect :: "host \<Rightarrow> string list \<Rightarrow> world \<Rightarrow> world" where
  "ghidra_trace_disconnect h args =
     convert_errors
       (if length args \<noteq> 0 then raise (RuntimeError ''Usage: ghidra trace disconnect'')
        else bind require_client (\<lambda>c. seq (store ClientClose) reset_client))"

definition compute_name :: "host \<Rightarrow> string" where
  "compute_name h =
     (case executable_basename (get_target (util h)) of
        None \<Rightarrow> ''lldb/noname''
      | Some progname \<Rightarrow> ''lldb/'' @ last (split_on CHR ''/'' progname))"

definition start_trace :: "host \<Rightarrow> string \<Rightarrow> unit action" where
  "start_trace h name =
     (case compute_ghidra_lcsp (arch h) of (language, compiler) \<Rightarrow>
        bind require_client (\<lambda>c.
          seq (store (CreateTrace name language compiler))
            (seq (set_trace
                    \<lparr>trace_name = name,
                     extra = \<lparr>memory_mapper = Some (compute_memory_mapper (arch h) language),
                       register_mapper = Some (compute_register_mapper (arch h) language)\<rparr>\<rparr>)
               (if currentframe_is_None (lib h) then
                  raise (AssertionError ''cannot locate schema.xml'')
                else
                  (case read_schema_xml (lib h) of
                     Inl e \<Rightarrow> raise e
                   | Inr schema_xml \<Rightarrow>
                       seq (store (StartTx (Transaction ''Create Root Object'' False)))
                         (seq (store (CreateRootObject schema_xml ''LldbSession''))
                            (seq (store (SetValue [] ''_display''
                                    (VStr (LLDB_VERSION_display (util h))) None))
                               (seq (store (CreateObject AVAILABLES_PATH))
                                  (seq (store (InsertObject AVAILABLES_PATH))
                                     (seq (store (CreateObject PROCESSES_PATH))
                                        (seq (store (InsertObject PROCESSES_PATH))
                                           (seq (store (TxCommit
                                                   (Transaction ''Create Root Object'' False)))
                                              (emit (SetConvenienceVariable ''_ghidra_tracing''
                                                 ''true''))))))))))))))"

definition ghidra_trace_start :: "host \<Rightarrow> string list \<Rightarrow> world \<Rightarrow> world" where
  "ghidra_trace_start h args =
     convert_errors
       (case args of
          [] \<Rightarrow>
            seq (bind require_client (\<lambda>c. return ()))
              (seq require_no_trace (start_trace h (compute_name h)))
        | [name] \<Rightarrow>
            seq (bind require_client (\<lambda>c. return ()))
              (seq require_no_trace (start_trace h name))
        | _ \<Rightarrow> raise (RuntimeError ''Usage: ghidra trace start [NAME]''))"

definition ghidra_trace_stop :: "host \<Rightarrow> string list \<Rightarrow> world \<Rightarrow> world" where
  "ghidra_trace_stop h args =
     convert_errors
       (if length args \<noteq> 0 then raise (RuntimeError ''Usage: ghidra trace stop'')
        else bind require_trace (\<lambda>t. seq (store TraceClose) reset_trace))"

definition restart_trace :: "host \<Rightarrow> string \<Rightarrow> unit action" where
  "restart_trace h name =
     seq (bind require_client (\<lambda>c. return ()))
       (seq (\<lambda>w. (if trace (STATE w) \<noteq> None then seq (store TraceClose) reset_trace
                  else return ()) w)
          (start_trace h name))"

definition ghidra_trace_restart :: "host \<Rightarrow> string list \<Rightarrow> world \<Rightarrow> world" where
  "ghidra_trace_restart h args =
     convert_errors
       (case args of
          [] \<Rightarrow> restart_trace h (compute_name h)
        | [name] \<Rightarrow> restart_trace h name
        | _ \<Rightarrow> raise (RuntimeError ''Usage: ghidra trace restart [NAME]''))"

definition ghidra_trace_txstart :: "host \<Rightarrow> string list \<Rightarrow> world \<Rightarrow> world" where
  "ghidra_trace_txstart h args =
     convert_errors
       (case args of
          [description] \<Rightarrow>
            seq require_no_tx
              (bind require_trace (\<lambda>t.
                 seq (store (StartTx (Transaction description False)))
                   (set_tx (Transaction description False))))
        | _ \<Rightarrow> raise (RuntimeError ''Usage: ghidra trace tx-start DESCRIPTION''))"

definition ghidra_trace_txcommit :: "host \<Rightarrow> string list \<Rightarrow> world \<Rightarrow> world" where
  "ghidra_trace_txcommit h args =
     convert_errors
       (if length args \<noteq> 0 then raise (RuntimeError ''Usage: ghidra trace tx-commit'')
        else bind require_tx (\<lambda>(t, x). seq (store (TxCommit x)) reset_tx))"

definition ghidra_trace_txabort :: "host \<Rightarrow> string list \<Rightarrow> world \<Rightarrow> world" where
  "ghidra_trace_txabort h args =
     convert_errors
       (if length args \<noteq> 0 then raise (RuntimeError ''Usage: ghidra trace tx-abort'')
        else
          bind require_tx (\<lambda>(t, x).
            seq (emit (Print ''Aborting trace transaction!''))
              (seq (store (TxAbort x)) reset_tx)))"

text \<open>
  \<^verbatim>\<open>open_tracked_tx\<close> opens a transaction on the trace, records it in the session, runs
  the body, lets the trace's own scope commit it, and clears the session's transaction.
  The body of \<open>tx-open\<close> is the debugger's interpreter run on the second argument: the
  parameter \<open>HandleCommand\<close>, which reports failures through the result and does not raise.
\<close>

definition open_tracked_tx :: "string \<Rightarrow> unit action \<Rightarrow> unit action" where
  "open_tracked_tx description body =
     bind require_trace (\<lambda>t.
       seq (store (StartTx (Transaction description False)))
         (seq (set_tx (Transaction description False))
            (seq body
               (seq (store (TxCommit (Transaction description False))) reset_tx))))"

definition ghidra_trace_txopen ::
    "host \<Rightarrow> (string \<Rightarrow> world \<Rightarrow> world) \<Rightarrow> string list \<Rightarrow> world \<Rightarrow> world" where
  "ghidra_trace_txopen h HandleCommand args =
     convert_errors
       (case args of
          [description, cmd] \<Rightarrow>
            open_tracked_tx description (\<lambda>w. (Inr (), HandleCommand cmd w))
        | _ \<Rightarrow> raise (RuntimeError ''Usage: ghidra trace tx-open DESCRIPTION COMMAND''))"

definition ghidra_trace_save :: "host \<Rightarrow> string list \<Rightarrow> world \<Rightarrow> world" where
  "ghidra_trace_save h args =
     convert_errors
       (if length args \<noteq> 0 then raise (RuntimeError ''Usage: ghidra trace save'')
        else bind require_trace (\<lambda>t. store TraceSave))"

definition ghidra_trace_new_snap :: "host \<Rightarrow> string list \<Rightarrow> world \<Rightarrow> world" where
  "ghidra_trace_new_snap h args =
     convert_errors
       (case args of
          [description] \<Rightarrow>
            bind require_trace (\<lambda>t. store (TraceSnapshot description None))
        | [snap, description] \<Rightarrow>
            bind (lift (py_int (lib h) snap)) (\<lambda>time.
              bind require_trace (\<lambda>t. store (TraceSnapshot description (Some time))))
        | _ \<Rightarrow> raise (RuntimeError ''Usage: ghidra trace new-snap [SNAP] DESCRIPTION''))"

subsection \<open>Memory commands\<close>

definition quote :: string where
  "quote = [CHR 0x27]"

definition put_bytes :: "host \<Rightarrow> int \<Rightarrow> int \<Rightarrow> bool \<Rightarrow> bool \<Rightarrow> unit action" where
  "put_bytes h start end result_given pages =
     bind require_trace (\<lambda>trace.
       case (if pages then quantize_pages start end else (start, end)) of (start, end) \<Rightarrow>
         let proc = get_process (util h) in
         if end - start \<le> 0 then return ()
         else
           seq (emit (ProcReadMemory start (end - start)))
             (case ReadMemory proc start (end - start) of
                Some buf \<Rightarrow>
                  bind (require_mm (extra trace)) (\<lambda>mm.
                    case mm start of (base, addr) \<Rightarrow>
                      seq (when_do (base \<noteq> space addr)
                             (store (CreateOverlaySpace base (space addr))))
                        (seq (store (PutBytes addr buf))
                           (if \<not> result_given then return ()
                            else
                              (case put_bytes_reply (remote h) addr buf of
                                 FutureDone n \<Rightarrow>
                                   emit (PutCString (''Wrote '' @ str_int n @ '' bytes''))
                               | FuturePending \<Rightarrow>
                                   emit (PutCString (''Wrong '' @ str_nat (length buf)
                                     @ '' bytes, perhaps in the future''))
                               | Count n \<Rightarrow>
                                   emit (PutCString (''Wrote '' @ str_int n @ '' bytes''))))))
              | None \<Rightarrow> raise (RuntimeError (''Cannot read memory at '' @ hex_int start))))"

definition eval_address :: "host \<Rightarrow> string \<Rightarrow> int action" where
  "eval_address h address =
     (case parse_and_eval (util h) address of
        Inr v \<Rightarrow> return v
      | Inl e \<Rightarrow> raise (RuntimeError
          (''Cannot convert '' @ quote @ address @ quote @ '' to address: '' @ str_error e)))"

definition eval_range :: "host \<Rightarrow> string \<Rightarrow> string \<Rightarrow> (int \<times> int) action" where
  "eval_range h address len =
     bind (eval_address h address) (\<lambda>start.
       case parse_and_eval (util h) len of
         Inr n \<Rightarrow> return (start, start + n)
       | Inl e \<Rightarrow> raise (RuntimeError
           (''Cannot convert '' @ quote @ len @ quote @ '' to length: '' @ str_error e)))"

definition putmem :: "host \<Rightarrow> string \<Rightarrow> string \<Rightarrow> bool \<Rightarrow> bool \<Rightarrow> unit action" where
  "putmem h address len result_given pages =
     bind (eval_range h address len) (\<lambda>(start, end).
       put_bytes h start end result_given pages)"

definition ghidra_trace_putmem :: "host \<Rightarrow> string list \<Rightarrow> world \<Rightarrow> world" where
  "ghidra_trace_putmem h args =
     convert_errors
       (case args of
          [address, len] \<Rightarrow>
            bind require_tx (\<lambda>_. putmem h address len True True)
        | [address, len, p] \<Rightarrow>
            bind (lift (get_eval (util h) p)) (\<lambda>v.
              let pages = (GetValueAsUnsigned v \<noteq> 0) in
              bind require_tx (\<lambda>_. putmem h address len True pages))
        | _ \<Rightarrow> raise (RuntimeError ''Usage: ghidra trace putmem ADDRESS LENGTH [PAGES]''))"

text \<open>
  With two arguments the source reads \<^verbatim>\<open>args[2]\<close>, which is out of range for a list
  of two elements.
\<close>

definition putval_body :: "host \<Rightarrow> string \<Rightarrow> bool \<Rightarrow> unit action" where
  "putval_body h expression pages =
     bind require_tx (\<lambda>_.
       case get_eval (util h) expression of
         Inl e \<Rightarrow> raise (RuntimeError
           (''Could not evaluate '' @ expression @ '': '' @ str_error e))
       | Inr v \<Rightarrow>
           let address = GetAddress v in
           if \<not> IsValid address then
             raise (RuntimeError (''Expression '' @ expression @ '' does not have an address''))
           else
             let start = load_address address;
                 end = start + start + size_bytes v
             in put_bytes h start end True pages)"

definition ghidra_trace_putval :: "host \<Rightarrow> string list \<Rightarrow> world \<Rightarrow> world" where
  "ghidra_trace_putval h args =
     convert_errors
       (case args of
          [expression] \<Rightarrow> putval_body h expression True
        | [expression, p] \<Rightarrow> raise (IndexError ''list index out of range'')
        | _ \<Rightarrow> raise (RuntimeError ''Usage: ghidra trace putval EXPRESSION [PAGES]''))"

definition putmem_state :: "host \<Rightarrow> string \<Rightarrow> string \<Rightarrow> string \<Rightarrow> bool \<Rightarrow> unit action" where
  "putmem_state h address len st pages =
     bind require_trace (\<lambda>trace.
       seq (case validate_state (remote h) st of Some e \<Rightarrow> raise e | None \<Rightarrow> return ())
         (bind (eval_range h address len) (\<lambda>(start, end).
            case (if pages then quantize_pages start end else (start, end)) of (start, end) \<Rightarrow>
              let proc = get_process (util h) in
              bind (require_mm (extra trace)) (\<lambda>mm.
                case mm start of (base, addr) \<Rightarrow>
                  seq (when_do (base \<noteq> space addr)
                         (store (CreateOverlaySpace base (space addr))))
                    (store (SetMemoryState (Address_extend addr (end - start)) st))))))"

definition ghidra_trace_putmem_state :: "host \<Rightarrow> string list \<Rightarrow> world \<Rightarrow> world" where
  "ghidra_trace_putmem_state h args =
     convert_errors
       (case args of
          [address, len, st] \<Rightarrow>
            bind require_tx (\<lambda>_. putmem_state h address len st True)
        | [address, len, st, p] \<Rightarrow>
            bind (lift (get_eval (util h) st)) (\<lambda>v.
              let pages = (GetValueAsUnsigned v \<noteq> 0) in
              bind require_tx (\<lambda>_. putmem_state h address len st pages))
        | _ \<Rightarrow> raise (RuntimeError ''Usage: ghidra trace putmem ADDRESS LENGTH STATE [PAGES]''))"

definition ghidra_trace_delmem :: "host \<Rightarrow> string list \<Rightarrow> world \<Rightarrow> world" where
  "ghidra_trace_delmem h args =
     convert_errors
       (bind require_trace (\<lambda>trace.
          case args of
            [address, len] \<Rightarrow>
              bind require_tx (\<lambda>_.
                bind (eval_range h address len) (\<lambda>(start, end).
                  let proc = get_process (util h) in
                  bind (require_mm (extra trace)) (\<lambda>mm.
                    case mm start of (base, addr) \<Rightarrow>
                      store (DeleteBytes (Address_extend addr (end - start))))))
          | _ \<Rightarrow> raise (RuntimeError ''Usage: ghidra trace delmem ADDRESS LENGTH'')))"

subsection \<open>Registers\<close>

text \<open>Python's formatting renders a missing name as \<^verbatim>\<open>None\<close>.\<close>

definition format_opt :: "string option \<Rightarrow> string" where
  "format_opt s = (case s of None \<Rightarrow> ''None'' | Some x \<Rightarrow> x)"

text \<open>The value LLDB hands back when it finds nothing: it has no name and no children.\<close>

definition invalid_value :: SBValue where
  "invalid_value =
     SBValue None (PlainType eBasicTypeInvalid [] None False) None 0 None
       \<lparr>byte_order = 0, uint8s = []\<rparr> \<lparr>IsValid = False, load_address = 0\<rparr> 0 ''No value'' []"

definition GetFirstValueByName :: "SBValue list \<Rightarrow> string \<Rightarrow> SBValue" where
  "GetFirstValueByName regs group_name =
     (case find (\<lambda>b. GetName b = Some group_name) regs of Some b \<Rightarrow> b | None \<Rightarrow> invalid_value)"

text \<open>
  \<^verbatim>\<open>util.selected_thread()\<close> and \<^verbatim>\<open>util.selected_frame()\<close> may be \<^verbatim>\<open>None\<close>;
  reading an attribute of \<^verbatim>\<open>None\<close> raises.
\<close>

definition the_selected_thread :: "host \<Rightarrow> string \<Rightarrow> SBThread action" where
  "the_selected_thread h attribute =
     (case selected_thread (util h) of
        None \<Rightarrow> raise (AttributeError
          (''NoneType object has no attribute '' @ attribute))
      | Some t \<Rightarrow> return t)"

definition the_selected_frame :: "host \<Rightarrow> string \<Rightarrow> SBFrame action" where
  "the_selected_frame h attribute =
     (case selected_frame (util h) of
        None \<Rightarrow> raise (AttributeError
          (''NoneType object has no attribute '' @ attribute))
      | Some f \<Rightarrow> return f)"

definition value_of :: "SBValue \<Rightarrow> tagged_value" where
  "value_of item = (case GetValue item of None \<Rightarrow> VNone | Some v \<Rightarrow> VStr v)"

primrec putreg_items ::
    "DefaultRegisterMapper \<Rightarrow> string \<Rightarrow> SBValue list \<Rightarrow> RegVal list \<Rightarrow> RegVal list action" where
  "putreg_items mapper bank_path [] values = return values"
| "putreg_items mapper bank_path (item # items) values =
     bind (lift (data_to_reg_bytes (GetData item))) (\<lambda>bs.
       seq (store (SetValue bank_path (format_opt (GetName item)) (value_of item) None))
         (putreg_items mapper bank_path items
            (values @ [map_value mapper (format_opt (GetName item)) bs])))"

definition putreg :: "host \<Rightarrow> SBFrame \<Rightarrow> SBValue \<Rightarrow> unit action" where
  "putreg h frame bank =
     (let proc = get_process (util h) in
      bind (the_selected_thread h ''GetThreadID'') (\<lambda>thread.
        let space_path = REGS_PATTERN (GetProcessID proc) (GetThreadID thread) (GetFrameID frame);
            bank_path = BANK_PATTERN (GetProcessID proc) (GetThreadID thread) (GetFrameID frame)
              (format_opt (GetName bank))
        in
          bind require_trace (\<lambda>t.
            seq (store (CreateOverlaySpace ''register'' space_path))
              (seq (store (CreateObject space_path))
                 (seq (store (InsertObject space_path))
                    (seq (store (CreateObject bank_path))
                       (seq (store (InsertObject bank_path))
                          (bind (require_rm (extra t)) (\<lambda>mapper.
                             bind (putreg_items mapper bank_path (children bank) []) (\<lambda>values.
                               store (PutRegisters space_path values)))))))))))"

definition putreg_group :: "host \<Rightarrow> string \<Rightarrow> unit action" where
  "putreg_group h group_name =
     bind (the_selected_frame h ''GetRegisters'') (\<lambda>frame.
       let regs = GetRegisters frame in
       if group_name \<noteq> ''all'' then putreg h frame (GetFirstValueByName regs group_name)
       else for_each regs (putreg h frame))"

definition ghidra_trace_putreg :: "host \<Rightarrow> string list \<Rightarrow> world \<Rightarrow> world" where
  "ghidra_trace_putreg h args =
     convert_errors
       (bind require_tx (\<lambda>_.
          case args of
            [] \<Rightarrow> putreg_group h ''all''
          | [group_name] \<Rightarrow> putreg_group h group_name
          | _ \<Rightarrow> raise (RuntimeError ''Usage: ghidra trace putreg [GROUP]'')))"

definition collect_mapped_names :: "host \<Rightarrow> SBValue \<Rightarrow> string list action" where
  "collect_mapped_names h bank =
     bind require_trace (\<lambda>t.
       bind (require_rm (extra t)) (\<lambda>mapper.
         return (map (\<lambda>item. map_name mapper (format_opt (GetName item))) (children bank))))"

primrec collect_all_names :: "host \<Rightarrow> SBValue list \<Rightarrow> string list \<Rightarrow> string list action" where
  "collect_all_names h [] names = return names"
| "collect_all_names h (bank # banks) names =
     bind (collect_mapped_names h bank) (\<lambda>ns. collect_all_names h banks (names @ ns))"

definition delreg_group :: "host \<Rightarrow> string \<Rightarrow> unit action" where
  "delreg_group h group_name =
     bind require_tx (\<lambda>_.
       let proc = get_process (util h) in
       bind (the_selected_frame h ''GetRegisters'') (\<lambda>frame.
         let regs = GetRegisters frame in
         bind (the_selected_thread h ''GetThreadID'') (\<lambda>thread.
           let space_path =
                 REGS_PATTERN (GetProcessID proc) (GetThreadID thread) (GetFrameID frame)
           in
             bind (if group_name \<noteq> ''all''
                   then collect_all_names h [GetFirstValueByName regs group_name] []
                   else collect_all_names h regs [])
               (\<lambda>names. store (DeleteRegisters space_path names)))))"

definition ghidra_trace_delreg :: "host \<Rightarrow> string list \<Rightarrow> world \<Rightarrow> world" where
  "ghidra_trace_delreg h args =
     convert_errors
       (case args of
          [] \<Rightarrow> delreg_group h ''all''
        | [group_name] \<Rightarrow> delreg_group h group_name
        | _ \<Rightarrow> raise (RuntimeError ''Usage: ghidra trace delreg [GROUP]''))"

subsection \<open>Objects\<close>

definition ghidra_trace_create_obj :: "host \<Rightarrow> string list \<Rightarrow> world \<Rightarrow> world" where
  "ghidra_trace_create_obj h args =
     convert_errors
       (case args of
          [path] \<Rightarrow>
            bind require_tx (\<lambda>_.
              seq (store (CreateObject path))
                (seq (store (InsertObject path))
                   (emit (PutCString (''Created object: id='' @ object_id (remote h) path
                      @ '', path='' @ quote @ path @ quote)))))
        | _ \<Rightarrow> raise (RuntimeError ''Usage: ghidra trace create-obj PATH''))"

definition ghidra_trace_insert_obj :: "host \<Rightarrow> string list \<Rightarrow> world \<Rightarrow> world" where
  "ghidra_trace_insert_obj h args =
     convert_errors
       (case args of
          [path] \<Rightarrow>
            bind require_tx (\<lambda>_.
              seq (store (InsertObject path))
                (emit (PutCString (''Inserted object: lifespan='' @ insert_span (remote h) path))))
        | _ \<Rightarrow> raise (RuntimeError ''Usage: ghidra trace insert-obj PATH''))"

definition ghidra_trace_remove_obj :: "host \<Rightarrow> string list \<Rightarrow> world \<Rightarrow> world" where
  "ghidra_trace_remove_obj h args =
     convert_errors
       (case args of
          [path] \<Rightarrow> bind require_tx (\<lambda>_. store (RemoveObject path))
        | _ \<Rightarrow> raise (RuntimeError ''Usage: ghidra trace remove-obj PATH''))"

subsection \<open>Converting values\<close>

text \<open>
  A schema of the trace client is compared by its name. The names used here are those of
  the client's module \<^verbatim>\<open>sch\<close>.
\<close>

type_synonym Schema = string

definition sch_VOID :: Schema where "sch_VOID = ''VOID''"
definition sch_BOOL :: Schema where "sch_BOOL = ''BOOL''"
definition sch_BYTE :: Schema where "sch_BYTE = ''BYTE''"
definition sch_CHAR :: Schema where "sch_CHAR = ''CHAR''"
definition sch_SHORT :: Schema where "sch_SHORT = ''SHORT''"
definition sch_INT :: Schema where "sch_INT = ''INT''"
definition sch_LONG :: Schema where "sch_LONG = ''LONG''"
definition sch_STRING :: Schema where "sch_STRING = ''STRING''"
definition sch_ADDRESS :: Schema where "sch_ADDRESS = ''ADDRESS''"
definition sch_BOOL_ARR :: Schema where "sch_BOOL_ARR = ''BOOL_ARR''"
definition sch_BYTE_ARR :: Schema where "sch_BYTE_ARR = ''BYTE_ARR''"
definition sch_CHAR_ARR :: Schema where "sch_CHAR_ARR = ''CHAR_ARR''"
definition sch_SHORT_ARR :: Schema where "sch_SHORT_ARR = ''SHORT_ARR''"
definition sch_INT_ARR :: Schema where "sch_INT_ARR = ''INT_ARR''"
definition sch_LONG_ARR :: Schema where "sch_LONG_ARR = ''LONG_ARR''"
definition sch_OBJECT :: Schema where "sch_OBJECT = ''OBJECT''"

text \<open>What \<open>convert_value\<close> returns: a value, or the pair of a base space and an address.\<close>

datatype converted = Plain tagged_value | Mapped string Address

fun starts_with :: "string \<Rightarrow> string \<Rightarrow> bool" where
  "starts_with s [] = True"
| "starts_with [] (p # ps) = False"
| "starts_with (x # xs) (p # ps) = (x = p \<and> starts_with xs ps)"

fun contains :: "string \<Rightarrow> string \<Rightarrow> bool" where
  "contains [] sub = (sub = [])"
| "contains (x # xs) sub = (starts_with (x # xs) sub \<or> contains xs sub)"

fun strip_typedefs :: "SBType \<Rightarrow> SBType" where
  "strip_typedefs (TypedefType t) = strip_typedefs t"
| "strip_typedefs (PlainType c n e p) = PlainType c n e p"

text \<open>\<^verbatim>\<open>bytes(...)\<close> of a sequence of integers raises unless each is below 256.\<close>

definition to_bytes :: "SBValue \<Rightarrow> error + bytes" where
  "to_bytes v =
     (if \<forall>c \<in> set (children v). 0 \<le> GetValueAsUnsigned c \<and> GetValueAsUnsigned c < 256
      then Inr (map (\<lambda>c. word_of_int (GetValueAsUnsigned c)) (children v))
      else Inl (ValueError ''bytes must be in range(0, 256)''))"

definition to_string :: "host \<Rightarrow> SBValue \<Rightarrow> string \<Rightarrow> error + string" where
  "to_string h v encoding =
     (case to_bytes v of Inl e \<Rightarrow> Inl e | Inr b \<Rightarrow> decode (lib h) b encoding)"

definition to_bool_list :: "SBValue \<Rightarrow> bool list" where
  "to_bool_list v = map (\<lambda>c. GetValueAsUnsigned c \<noteq> 0) (children v)"

definition to_int_list :: "SBValue \<Rightarrow> int list" where
  "to_int_list v = map GetValueAsUnsigned (children v)"

definition to_short_list :: "SBValue \<Rightarrow> int list" where
  "to_short_list v = map GetValueAsUnsigned (children v)"

definition cannot_convert :: "Schema option \<Rightarrow> string \<Rightarrow> SBValue \<Rightarrow> error" where
  "cannot_convert schema expr v =
     ValueError (''Cannot convert ('' @ format_opt schema @ ''): '' @ quote @ expr @ quote
       @ '', value='' @ quote @ str_value v @ quote)"

definition string_result ::
    "error + string \<Rightarrow> Schema \<Rightarrow> (converted \<times> Schema option) action" where
  "string_result r schema =
     (case r of Inl e \<Rightarrow> raise e | Inr s \<Rightarrow> return (Plain (VStr s), Some schema))"

definition int_result ::
    "error + int \<Rightarrow> Schema \<Rightarrow> (converted \<times> Schema option) action" where
  "int_result r schema =
     (case r of Inl e \<Rightarrow> raise e | Inr n \<Rightarrow> return (Plain (VInt n), Some schema))"

definition convert_array ::
    "host \<Rightarrow> string \<Rightarrow> SBValue \<Rightarrow> Schema option \<Rightarrow> SBType \<Rightarrow>
     (converted \<times> Schema option) action" where
  "convert_array h expr v schema etype =
     (let ecode = GetBasicType etype in
      if ecode = eBasicTypeBool then return (Plain (VBoolList (to_bool_list v)), Some sch_BOOL_ARR)
      else if ecode = eBasicTypeChar \<or> ecode = eBasicTypeSignedChar
          \<or> ecode = eBasicTypeUnsignedChar then
        (if schema = Some sch_BYTE_ARR then
           (case to_bytes v of Inl e \<Rightarrow> raise e | Inr b \<Rightarrow> return (Plain (VBytes b), schema))
         else if schema = Some sch_CHAR_ARR then string_result (to_string h v ''utf-8'') sch_CHAR_ARR
         else string_result (to_string h v ''utf-8'') sch_STRING)
      else if ecode = eBasicTypeShort \<or> ecode = eBasicTypeUnsignedShort then
        (case schema of
           None \<Rightarrow>
             if GetTypeName etype = ''wchar_t'' then string_result (to_string h v ''utf-16'') sch_STRING
             else return (Plain (VIntList (to_int_list v)), Some sch_SHORT_ARR)
         | Some s \<Rightarrow>
             if s = sch_CHAR_ARR then string_result (to_string h v ''utf-16'') s
             else return (Plain (VIntList (to_int_list v)), schema))
      else if ecode = eBasicTypeSignedWChar \<or> ecode = eBasicTypeUnsignedWChar then
        (if schema \<noteq> None \<and> schema \<noteq> Some sch_CHAR_ARR
         then return (Plain (VIntList (to_short_list v)), schema)
         else string_result (to_string h v ''utf-16'') sch_STRING)
      else if ecode = eBasicTypeInt \<or> ecode = eBasicTypeUnsignedInt then
        (case schema of
           None \<Rightarrow>
             if GetTypeName etype = ''wchar_t'' then string_result (to_string h v ''utf-32'') sch_STRING
             else return (Plain (VIntList (to_int_list v)), Some sch_INT_ARR)
         | Some s \<Rightarrow>
             if s = sch_CHAR_ARR then string_result (to_string h v ''utf-32'') s
             else return (Plain (VIntList (to_int_list v)), schema))
      else if ecode = eBasicTypeLong \<or> ecode = eBasicTypeUnsignedLong
          \<or> ecode = eBasicTypeLongLong \<or> ecode = eBasicTypeUnsignedLongLong then
        (if schema \<noteq> None then return (Plain (VIntList (to_int_list v)), schema)
         else return (Plain (VIntList (to_int_list v)), Some sch_LONG_ARR))
      else raise (cannot_convert schema expr v))"

definition convert_value ::
    "host \<Rightarrow> string \<Rightarrow> SBValue \<Rightarrow> Schema option \<Rightarrow> (converted \<times> Schema option) action" where
  "convert_value h expr v schema =
     (let type = strip_typedefs (GetType v);
          code = GetBasicType type
      in
        if code = eBasicTypeVoid then return (Plain VNone, Some sch_VOID)
        else if code = eBasicTypeChar \<or> code = eBasicTypeSignedChar
            \<or> code = eBasicTypeUnsignedChar then
          (case GetValue v of
             None \<Rightarrow> raise (TypeError ''argument of type NoneType is not iterable'')
           | Some rendered \<Rightarrow>
               if \<not> contains rendered [CHR 0x5C, CHR ''x'']
               then return (Plain (VInt (GetValueAsUnsigned v)), Some sch_CHAR)
               else return (Plain (VInt (GetValueAsUnsigned v)), Some sch_BYTE))
        else if code = eBasicTypeShort \<or> code = eBasicTypeUnsignedShort then
          int_result (data_to_int (GetData v)) sch_SHORT
        else if code = eBasicTypeInt \<or> code = eBasicTypeUnsignedInt then
          int_result (data_to_int (GetData v)) sch_INT
        else if code = eBasicTypeLong \<or> code = eBasicTypeUnsignedLong then
          int_result (data_to_int (GetData v)) sch_LONG
        else if code = eBasicTypeLongLong \<or> code = eBasicTypeUnsignedLongLong then
          int_result (data_to_int (GetData v)) sch_LONG
        else if code = eBasicTypeBool then
          return (Plain (VBool (case GetValue v of None \<Rightarrow> False | Some s \<Rightarrow> s \<noteq> [])),
            Some sch_BOOL)
        else if starts_with (GetTypeName type) ''const char['' then
          return (Plain (case GetSummary v of None \<Rightarrow> VNone | Some s \<Rightarrow> VStr s), Some sch_STRING)
        else if starts_with (GetTypeName type) ''const wchar_t['' then
          return (Plain (case GetSummary v of None \<Rightarrow> VNone | Some s \<Rightarrow> VStr s), Some sch_STRING)
        else
          (case GetArrayElementType type of
             Some etype \<Rightarrow> convert_array h expr v schema (strip_typedefs etype)
           | None \<Rightarrow>
               if IsPointerType type then
                 (case data_to_int (GetData v) of
                    Inl e \<Rightarrow> raise e
                  | Inr off \<Rightarrow>
                      let proc = get_process (util h) in
                      bind require_trace (\<lambda>t.
                        bind (require_mm (extra t)) (\<lambda>mm.
                          case mm off of (base, a) \<Rightarrow> return (Mapped base a, Some sch_ADDRESS))))
               else raise (cannot_convert schema expr v)))"

definition eval_value ::
    "host \<Rightarrow> string \<Rightarrow> Schema option \<Rightarrow> (converted \<times> Schema option) action" where
  "eval_value h expr schema =
     bind (lift (get_eval (util h) expr)) (\<lambda>v. convert_value h expr v schema)"

definition set_value_body ::
    "host \<Rightarrow> string \<Rightarrow> string \<Rightarrow> string \<Rightarrow> Schema option \<Rightarrow> unit action" where
  "set_value_body h path key val schema =
     bind require_tx (\<lambda>_.
       if schema = Some sch_OBJECT then store (SetValue path key (VObject val) schema)
       else
         bind (eval_value h val schema) (\<lambda>(v, schema).
           case v of
             Mapped base a \<Rightarrow>
               if schema = Some sch_ADDRESS then
                 seq (when_do (base \<noteq> space a) (store (CreateOverlaySpace base (space a))))
                   (store (SetValue path key (VAddress a) schema))
               else store (SetValue path key (VAddress a) schema)
           | Plain x \<Rightarrow> store (SetValue path key x schema)))"

definition ghidra_trace_set_value :: "host \<Rightarrow> string list \<Rightarrow> world \<Rightarrow> world" where
  "ghidra_trace_set_value h args =
     convert_errors
       (case args of
          [path, key, val] \<Rightarrow> set_value_body h path key val None
        | [path, key, val, schema] \<Rightarrow> set_value_body h path key val (Some schema)
        | _ \<Rightarrow> raise (RuntimeError ''Usage: ghidra trace set-value PATH KEY VALUE [SCHEMA]''))"

text \<open>
  The options of \<open>retain-values\<close> are parsed by the library's option parser, which hands
  back the kinds selected and the remaining arguments, or exits.
\<close>

definition ghidra_trace_retain_values :: "host \<Rightarrow> string list \<Rightarrow> world \<Rightarrow> world" where
  "ghidra_trace_retain_values h args =
     convert_errors
       (bind (lift (retain_values_parse_args (lib h) args)) (\<lambda>(kinds, rest).
          case rest of
            [] \<Rightarrow> raise (RuntimeError
              ''Usage: ghidra trace retain-values [OPTIONS] PATH [KEYS...]'')
          | path # keys \<Rightarrow>
              bind require_tx (\<lambda>_. store (RetainValues path keys kinds))))"

definition ghidra_trace_disassemble :: "host \<Rightarrow> string list \<Rightarrow> world \<Rightarrow> world" where
  "ghidra_trace_disassemble h args =
     convert_errors
       (case args of
          [address] \<Rightarrow>
            bind require_tx (\<lambda>(t, x).
              bind (eval_address h address) (\<lambda>start.
                let proc = get_process (util h) in
                bind (require_mm (extra t)) (\<lambda>mm.
                  case mm start of (base, a) \<Rightarrow>
                    seq (when_do (base \<noteq> space a) (store (CreateOverlaySpace base (space a))))
                      (seq (store (Disassemble a))
                         (emit (PutCString (''Disassembled ''
                            @ disassemble_length (remote h) a @ '' bytes'')))))))
        | _ \<Rightarrow> raise (RuntimeError ''Usage: ghidra trace disassemble ADDRESS''))"

subsection \<open>Regions\<close>

definition should_query_regions :: "host \<Rightarrow> bool" where
  "should_query_regions h =
     (let tgt = get_target (util h) in
      if GetNumModules tgt = 0 then True
      else let proc = get_process (util h) in GetMemoryRegionInfo_Success proc 0)"

text \<open>The body of the loop of \<open>put_regions\<close>, for one region.\<close>

definition put_region :: "host \<Rightarrow> DefaultMemoryMapper \<Rightarrow> Region \<Rightarrow> unit action" where
  "put_region h mapper r =
     (let proc = get_process (util h);
          rpath = REGION_PATTERN (GetProcessID proc) (region_start r)
      in
        seq (store (CreateObject rpath))
          (case mapper (region_start r) of (start_base, start_addr) \<Rightarrow>
             seq (when_do (start_base \<noteq> space start_addr)
                    (store (CreateOverlaySpace start_base (space start_addr))))
               (seq (store (SetValue rpath ''Range''
                       (VRange (Address_extend start_addr (region_end r - region_start r))) None))
                  (seq (case perms r of
                          None \<Rightarrow> return ()
                        | Some p \<Rightarrow> store (SetValue rpath ''Permissions'' (VStr p) None))
                     (seq (store (SetValue rpath ''_readable''
                             (VBool (case perms r of None \<Rightarrow> True | Some p \<Rightarrow> CHR ''r'' \<in> set p))
                             None))
                        (seq (store (SetValue rpath ''_writable''
                                (VBool (case perms r of None \<Rightarrow> True | Some p \<Rightarrow> CHR ''w'' \<in> set p))
                                None))
                           (seq (store (SetValue rpath ''_executable''
                                   (VBool (case perms r of None \<Rightarrow> True
                                      | Some p \<Rightarrow> CHR ''x'' \<in> set p)) None))
                              (seq (store (SetValue rpath ''Offset''
                                      (VStr (py_hex (region_offset r))) None))
                                 (seq (store (SetValue rpath ''Object File''
                                         (VStr (objfile r)) None))
                                    (store (InsertObject rpath)))))))))))"

definition put_regions :: "host \<Rightarrow> unit action" where
  "put_regions h =
     (let proc = get_process (util h);
          regions = (if should_query_regions h
                     then (case get_regions (util h) of Some rs \<Rightarrow> rs | None \<Rightarrow> [])
                     else []);
          regions = (if length regions = 0 \<and> selected_thread (util h) \<noteq> None
                     then [full_mem (util h)] else regions)
      in
        bind require_trace (\<lambda>t.
          bind (require_mm (extra t)) (\<lambda>mapper.
            seq (for_each regions (put_region h mapper))
              (store (RetainValues (MEMORY_PATTERN (GetProcessID proc))
                 (map (\<lambda>r. REGION_KEY_PATTERN (region_start r)) regions) ''elements'')))))"

definition ghidra_trace_put_regions :: "host \<Rightarrow> string list \<Rightarrow> world \<Rightarrow> world" where
  "ghidra_trace_put_regions h args =
     convert_errors
       (if length args \<noteq> 0 then raise (RuntimeError ''Usage: ghidra trace put-regions'')
        else bind require_tx (\<lambda>_. put_regions h))"

subsection \<open>Processes, breakpoints and watchpoints\<close>

definition compute_proc_state :: "SBProcess \<Rightarrow> string" where
  "compute_proc_state proc = (if is_running proc then ''RUNNING'' else ''STOPPED'')"

definition put_processes :: "host \<Rightarrow> unit action" where
  "put_processes h =
     bind require_trace (\<lambda>t.
       let proc = get_process (util h);
           ipath = PROCESS_PATTERN (GetProcessID proc);
           keys = [PROCESS_KEY_PATTERN (GetProcessID proc)];
           istate = compute_proc_state proc
       in
         seq (store (CreateObject ipath))
           (seq (store (SetValue ipath ''State'' (VStr istate) None))
              (seq (store (InsertObject ipath))
                 (store (RetainValues PROCESSES_PATH keys ''elements'')))))"

definition ghidra_trace_put_processes :: "host \<Rightarrow> string list \<Rightarrow> world \<Rightarrow> world" where
  "ghidra_trace_put_processes h args =
     convert_errors
       (if length args \<noteq> 0 then raise (RuntimeError ''Usage: ghidra trace put-processes'')
        else bind require_tx (\<lambda>_. put_processes h))"

definition put_available :: "host \<Rightarrow> unit action" where
  "put_available h =
     bind require_trace (\<lambda>t.
       seq (for_each (process_iter (lib h)) (\<lambda>(pid, pname).
              let ppath = AVAILABLE_PATTERN pid in
              seq (store (CreateObject ppath))
                (seq (store (SetValue ppath ''PID'' (VInt pid) None))
                   (seq (store (SetValue ppath ''_display''
                           (VStr (str_int pid @ '' '' @ pname)) None))
                      (store (InsertObject ppath))))))
         (store (RetainValues AVAILABLES_PATH
            (map (\<lambda>(pid, pname). AVAILABLE_KEY_PATTERN pid) (process_iter (lib h)))
            ''elements'')))"

definition ghidra_trace_put_available :: "host \<Rightarrow> string list \<Rightarrow> world \<Rightarrow> world" where
  "ghidra_trace_put_available h args =
     convert_errors
       (if length args \<noteq> 0 then raise (RuntimeError ''Usage: ghidra trace put-available'')
        else bind require_tx (\<lambda>_. put_available h))"

text \<open>A condition is written only when it is a non-empty string.\<close>

definition truthy :: "string option \<Rightarrow> bool" where
  "truthy s = (case s of None \<Rightarrow> False | Some x \<Rightarrow> x \<noteq> [])"

definition put_break_loc ::
    "SBBreakpoint \<Rightarrow> SBProcess \<Rightarrow> DefaultMemoryMapper \<Rightarrow> string \<Rightarrow>
     nat \<times> SBBreakpointLocation \<Rightarrow> unit action" where
  "put_break_loc b proc mapper bpt_path il =
     (case il of (i, l) \<Rightarrow>
        let k = BREAK_LOC_KEY_PATTERN (int i + 1) in
        seq (store (CreateObject (bpt_path @ k)))
          (seq (if location_is_not_None b then
                  (case mapper (GetLoadAddress l) of (base, a) \<Rightarrow>
                     seq (when_do (base \<noteq> space a) (store (CreateOverlaySpace base (space a))))
                       (seq (store (SetValue (bpt_path @ k) ''Range''
                               (VRange (Address_extend a 1)) None))
                          (store (SetValue (bpt_path @ k) ''Enabled''
                             (VBool (loc_IsEnabled l)) None))))
                else return ())
             (store (InsertObject (bpt_path @ k)))))"

definition put_single_breakpoint :: "host \<Rightarrow> SBBreakpoint \<Rightarrow> SBProcess \<Rightarrow> unit action" where
  "put_single_breakpoint h b proc =
     bind require_trace (\<lambda>t.
       bind (require_mm (extra t)) (\<lambda>mapper.
         let bpt_path = PROC_BREAK_PATTERN (GetProcessID proc) (bpt_GetID b);
             locs = get_locations b
         in
           seq (store (CreateObject bpt_path))
            (seq (store (SetValue bpt_path ''Expression'' (VStr (bpt_description b)) None))
             (seq (store (SetValue bpt_path ''Kinds''
                     (VStr (if IsHardware b then ''HW_EXECUTE'' else ''SW_EXECUTE'')) None))
                (seq (case GetCommandLineCommands b of
                        None \<Rightarrow> return ()
                      | Some cmds \<Rightarrow> store (SetValue bpt_path ''Commands'' (VStrList cmds) None))
                   (seq (when_do (truthy (bpt_GetCondition b))
                           (store (SetValue bpt_path ''Condition''
                              (VStr (format_opt (bpt_GetCondition b))) None)))
                      (seq (store (SetValue bpt_path ''Hit Count'' (VInt (bpt_GetHitCount b)) None))
                         (seq (store (SetValue bpt_path ''Ignore Count''
                                 (VInt (bpt_GetIgnoreCount b)) None))
                            (seq (store (SetValue bpt_path ''Temporary'' (VBool (IsOneShot b)) None))
                               (seq (store (SetValue bpt_path ''Enabled''
                                       (VBool (bpt_IsEnabled b)) None))
                                  (seq (for_each (enumerate 0 locs)
                                          (put_break_loc b proc mapper bpt_path))
                                     (seq (store (RetainValues bpt_path
                                             (map (\<lambda>(i, l). BREAK_LOC_KEY_PATTERN (int i + 1))
                                                (enumerate 0 locs)) ''elements''))
                                        (store (InsertObject bpt_path))))))))))))))"

definition put_single_watchpoint :: "host \<Rightarrow> SBWatchpoint \<Rightarrow> SBProcess \<Rightarrow> unit action" where
  "put_single_watchpoint h w proc =
     bind require_trace (\<lambda>t.
       bind (require_mm (extra t)) (\<lambda>mapper.
         let wpt_path = PROC_WATCH_PATTERN (GetProcessID proc) (wpt_GetID w);
             desc = wpt_description w
         in
           seq (store (CreateObject wpt_path))
             (seq (store (SetValue wpt_path ''Expression'' (VStr desc) None))
                (seq (store (SetValue wpt_path ''Kinds'' (VStr ''WRITE'') None))
                   (seq (when_do (contains desc ''type = r'')
                           (store (SetValue wpt_path ''Kinds'' (VStr ''READ'') None)))
                      (seq (when_do (contains desc ''type = rw'')
                              (store (SetValue wpt_path ''Kinds'' (VStr ''READ,WRITE'') None)))
                         (case mapper (GetWatchAddress w) of (base, a) \<Rightarrow>
                            seq (when_do (base \<noteq> space a)
                                   (store (CreateOverlaySpace base (space a))))
                              (seq (store (SetValue wpt_path ''Range''
                                      (VRange (Address_extend a (GetWatchSize w))) None))
                                 (seq (when_do (truthy (wpt_GetCondition w))
                                         (store (SetValue wpt_path ''Condition''
                                            (VStr (format_opt (wpt_GetCondition w))) None)))
                                    (seq (store (SetValue wpt_path ''Hit Count''
                                            (VInt (wpt_GetHitCount w)) None))
                                       (seq (store (SetValue wpt_path ''Ignore Count''
                                               (VInt (wpt_GetIgnoreCount w)) None))
                                          (seq (store (SetValue wpt_path ''Hardware Index''
                                                  (VInt (GetHardwareIndex w)) None))
                                             (seq (store (SetValue wpt_path ''Watch Address''
                                                     (VStr (py_hex (GetWatchAddress w))) None))
                                                (seq (store (SetValue wpt_path ''Watch Size''
                                                        (VInt (GetWatchSize w)) None))
                                                   (seq (store (SetValue wpt_path ''Enabled''
                                                           (VBool (wpt_IsEnabled w)) None))
                                                      (store (InsertObject wpt_path)))))))))))))))))"

definition put_breakpoints :: "host \<Rightarrow> unit action" where
  "put_breakpoints h =
     (let target = get_target (util h);
          proc = get_process (util h);
          cont_path = PROC_BREAKS_PATTERN (GetProcessID proc)
      in
        bind require_trace (\<lambda>t.
          seq (store (CreateObject cont_path))
            (seq (for_each (breakpoints target) (\<lambda>b. put_single_breakpoint h b proc))
               (seq (store (InsertObject cont_path))
                  (store (RetainValues cont_path
                     (map (\<lambda>b. BREAKPOINT_KEY_PATTERN (bpt_GetID b)) (breakpoints target))
                     ''elements''))))))"

definition put_watchpoints :: "host \<Rightarrow> unit action" where
  "put_watchpoints h =
     (let target = get_target (util h);
          proc = get_process (util h);
          cont_path = PROC_WATCHES_PATTERN (GetProcessID proc)
      in
        bind require_trace (\<lambda>t.
          seq (store (CreateObject cont_path))
            (seq (for_each (watchpoints target) (\<lambda>b. put_single_watchpoint h b proc))
               (seq (store (InsertObject cont_path))
                  (store (RetainValues cont_path
                     (map (\<lambda>b. WATCHPOINT_KEY_PATTERN (wpt_GetID b)) (watchpoints target))
                     ''elements''))))))"

definition ghidra_trace_put_breakpoints :: "host \<Rightarrow> string list \<Rightarrow> world \<Rightarrow> world" where
  "ghidra_trace_put_breakpoints h args =
     convert_errors
       (if length args \<noteq> 0 then raise (RuntimeError ''Usage: ghidra trace put-breakpoints'')
        else bind require_tx (\<lambda>_. put_breakpoints h))"

definition ghidra_trace_put_watchpoints :: "host \<Rightarrow> string list \<Rightarrow> world \<Rightarrow> world" where
  "ghidra_trace_put_watchpoints h args =
     convert_errors
       (if length args \<noteq> 0 then raise (RuntimeError ''Usage: ghidra trace put-watchpoints'')
        else bind require_tx (\<lambda>_. put_watchpoints h))"

subsection \<open>Environment, modules, threads and frames\<close>

definition put_environment :: "host \<Rightarrow> unit action" where
  "put_environment h =
     (let proc = get_process (util h);
          epath = ENV_PATTERN (GetProcessID proc)
      in
        bind require_trace (\<lambda>t.
          seq (store (CreateObject epath))
            (seq (store (SetValue epath ''Debugger'' (VStr ''lldb'') None))
               (seq (store (SetValue epath ''Arch'' (VStr (get_arch (arch h))) None))
                  (seq (store (SetValue epath ''OS'' (VStr (get_osabi (arch h))) None))
                     (seq (store (SetValue epath ''Endian'' (VStr (get_endian (arch h))) None))
                        (store (InsertObject epath))))))))"

definition ghidra_trace_put_environment :: "host \<Rightarrow> string list \<Rightarrow> world \<Rightarrow> world" where
  "ghidra_trace_put_environment h args =
     convert_errors
       (if length args \<noteq> 0 then raise (RuntimeError ''Usage: ghidra trace put-environment'')
        else bind require_tx (\<lambda>_. put_environment h))"

definition put_section ::
    "DefaultMemoryMapper \<Rightarrow> string \<Rightarrow> string \<times> Section \<Rightarrow> unit action" where
  "put_section mapper mpath ss =
     (case ss of (sk, s) \<Rightarrow>
        let spath = mpath @ SECTION_ADD_PATTERN sk in
        seq (store (CreateObject spath))
          (case mapper (section_start s) of (start_base, start_addr) \<Rightarrow>
             seq (when_do (start_base \<noteq> space start_addr)
                    (store (CreateOverlaySpace start_base (space start_addr))))
               (seq (store (SetValue spath ''Range''
                       (VRange (Address_extend start_addr (section_end s - section_start s + 1)))
                       None))
                  (seq (store (SetValue spath ''Offset'' (VStr (py_hex (section_offset s))) None))
                     (seq (store (SetValue spath ''Attrs'' (VStrList (attrs s)) None))
                        (store (InsertObject spath)))))))"

definition put_module ::
    "host \<Rightarrow> DefaultMemoryMapper \<Rightarrow> string \<times> Module \<Rightarrow> unit action" where
  "put_module h mapper mm =
     (case mm of (mk, m) \<Rightarrow>
        let proc = get_process (util h);
            mpath = MODULE_PATTERN (GetProcessID proc) mk
        in
          seq (store (CreateObject mpath))
            (seq (store (SetValue mpath ''Name'' (VStr (mod_name m)) None))
               (case mapper (mod_base m) of (base_base, base_addr) \<Rightarrow>
                  seq (when_do (base_base \<noteq> space base_addr)
                         (store (CreateOverlaySpace base_base (space base_addr))))
                    (seq (when_do (mod_max m > mod_base m)
                            (store (SetValue mpath ''Range''
                               (VRange (Address_extend base_addr (mod_max m - mod_base m + 1)))
                               None)))
                       (seq (for_each (sections m) (put_section mapper mpath))
                          (seq (store (InsertObject mpath))
                             (store (RetainValues (mpath @ SECTIONS_ADD_PATTERN)
                                (map (\<lambda>(sk, s). SECTION_KEY_PATTERN sk) (sections m))
                                ''elements''))))))))"

definition put_modules :: "host \<Rightarrow> unit action" where
  "put_modules h =
     (let target = get_target (util h);
          proc = get_process (util h);
          modules = get_modules (util h)
      in
        bind require_trace (\<lambda>t.
          bind (require_mm (extra t)) (\<lambda>mapper.
            seq (for_each modules (put_module h mapper))
              (store (RetainValues (MODULES_PATTERN (GetProcessID proc))
                 (map (\<lambda>(mk, m). MODULE_KEY_PATTERN mk) modules) ''elements'')))))"

definition ghidra_trace_put_modules :: "host \<Rightarrow> string list \<Rightarrow> world \<Rightarrow> world" where
  "ghidra_trace_put_modules h args =
     convert_errors
       (if length args \<noteq> 0 then raise (RuntimeError ''Usage: ghidra trace put-modules'')
        else bind require_tx (\<lambda>_. put_modules h))"

definition put_thread :: "SBProcess \<Rightarrow> int \<Rightarrow> SBThread \<Rightarrow> unit action" where
  "put_thread proc radix t =
     (let tpath = THREAD_PATTERN (GetProcessID proc) (GetThreadID t);
          tid = GetThreadID t;
          tidstr = (if radix = 16 then ''0x'' @ hex_int tid
                    else if radix = 8 then ''0'' @ oct_int tid else str_int tid)
      in
        seq (store (CreateObject tpath))
          (seq (store (SetValue tpath ''State'' (VStr (compute_proc_state proc)) None))
             (seq (store (SetValue tpath ''Name''
                     (case GetThreadName t of None \<Rightarrow> VNone | Some n \<Rightarrow> VStr n) None))
                (seq (store (SetValue tpath ''TID'' (VInt tid) None))
                   (seq (store (SetValue tpath ''_short_display''
                           (VStr (''['' @ str_int (GetProcessID proc) @ ''.''
                              @ str_int (GetThreadID t) @ '':'' @ tidstr @ '']'')) None))
                      (seq (store (SetValue tpath ''_display''
                              (VStr (thread_description t)) None))
                         (store (InsertObject tpath))))))))"

definition put_threads :: "host \<Rightarrow> unit action" where
  "put_threads h =
     (let radix_raw = get_convenience_variable (util h) ''output-radix'' in
      bind (if radix_raw = ''auto'' then return 16 else lift (py_int (lib h) radix_raw))
        (\<lambda>radix.
           let proc = get_process (util h) in
           bind require_trace (\<lambda>t.
             seq (for_each (threads proc) (put_thread proc radix))
               (store (RetainValues (THREADS_PATTERN (GetProcessID proc))
                  (map (\<lambda>t. THREAD_KEY_PATTERN (GetThreadID t)) (threads proc))
                  ''elements'')))))"

definition ghidra_trace_put_threads :: "host \<Rightarrow> string list \<Rightarrow> world \<Rightarrow> world" where
  "ghidra_trace_put_threads h args =
     convert_errors
       (if length args \<noteq> 0 then raise (RuntimeError ''Usage: ghidra trace put-threads'')
        else bind require_tx (\<lambda>_. put_threads h))"

definition put_frame ::
    "SBProcess \<Rightarrow> DefaultMemoryMapper \<Rightarrow> SBThread \<Rightarrow> SBFrame \<Rightarrow> unit action" where
  "put_frame proc mapper t f =
     (let fpath = FRAME_PATTERN (GetProcessID proc) (GetThreadID t) (GetFrameID f) in
      seq (store (CreateObject fpath))
        (case mapper (GetPC f) of (base, pc) \<Rightarrow>
           seq (when_do (base \<noteq> space pc) (store (CreateOverlaySpace base (space pc))))
             (seq (store (SetValue fpath ''PC'' (VAddress pc) None))
                (seq (store (SetValue fpath ''Function''
                        (VStr (format_opt (GetFunctionName f))) None))
                   (seq (store (SetValue fpath ''_display'' (VStr (frame_description f)) None))
                      (seq (store (InsertObject fpath))
                         (seq (store (CreateObject (fpath @ ''.Registers'')))
                            (store (InsertObject (fpath @ ''.Registers''))))))))))"

definition put_frames :: "host \<Rightarrow> unit action" where
  "put_frames h =
     (let proc = get_process (util h) in
      bind require_trace (\<lambda>tr.
        bind (require_mm (extra tr)) (\<lambda>mapper.
          case selected_thread (util h) of
            None \<Rightarrow> return ()
          | Some t \<Rightarrow>
              seq (for_each (frames t) (put_frame proc mapper t))
                (store (RetainValues (STACK_PATTERN (GetProcessID proc) (GetThreadID t))
                   (map (\<lambda>f. FRAME_KEY_PATTERN (GetFrameID f)) (frames t)) ''elements'')))))"

definition ghidra_trace_put_frames :: "host \<Rightarrow> string list \<Rightarrow> world \<Rightarrow> world" where
  "ghidra_trace_put_frames h args =
     convert_errors
       (if length args \<noteq> 0 then raise (RuntimeError ''Usage: ghidra trace put-frames'')
        else bind require_tx (\<lambda>_. put_frames h))"

text \<open>
  \<open>put-all\<close> calls the decorated commands \<open>putreg\<close> and \<open>putmem\<close> with fixed command
  lines, here already split into arguments, and then the synchronizers.
\<close>

definition ghidra_trace_put_all :: "host \<Rightarrow> string list \<Rightarrow> world \<Rightarrow> world" where
  "ghidra_trace_put_all h args =
     convert_errors
       (if length args \<noteq> 0 then raise (RuntimeError ''Usage: ghidra trace put-all'')
        else
          bind require_tx (\<lambda>_.
            seq (\<lambda>w. (Inr (), ghidra_trace_putreg h [''General'', ''Purpose'', ''Registers''] w))
              (seq (\<lambda>w. (Inr (), ghidra_trace_putmem h [''$pc'', ''1''] w))
                 (seq (\<lambda>w. (Inr (), ghidra_trace_putmem h [''$sp'', ''1''] w))
                    (seq (put_processes h)
                       (seq (put_environment h)
                          (seq (put_regions h)
                             (seq (put_modules h)
                                (seq (put_threads h)
                                   (seq (put_frames h)
                                      (seq (put_breakpoints h)
                                         (seq (put_watchpoints h)
                                            (put_available h)))))))))))))"

subsection \<open>The commands by name\<close>

text \<open>
  The commands are registered with the debugger under \<^verbatim>\<open>ghidra trace NAME\<close>. A command
  line the interpreter handles is one of these with its arguments, \<open>tx-open\<close> with its
  arguments and the command line its second argument denotes, or a command of the debugger
  that is not of this file, which only leaves its status in the result.
\<close>

definition registry :: "host \<Rightarrow> (string \<times> (string list \<Rightarrow> world \<Rightarrow> world)) list" where
  "registry h =
     [(''connect'', ghidra_trace_connect h),
      (''listen'', ghidra_trace_listen h),
      (''disconnect'', ghidra_trace_disconnect h),
      (''start'', ghidra_trace_start h),
      (''stop'', ghidra_trace_stop h),
      (''restart'', ghidra_trace_restart h),
      (''tx-start'', ghidra_trace_txstart h),
      (''tx-commit'', ghidra_trace_txcommit h),
      (''tx-abort'', ghidra_trace_txabort h),
      (''save'', ghidra_trace_save h),
      (''new-snap'', ghidra_trace_new_snap h),
      (''putmem'', ghidra_trace_putmem h),
      (''putval'', ghidra_trace_putval h),
      (''putmem-state'', ghidra_trace_putmem_state h),
      (''delmem'', ghidra_trace_delmem h),
      (''putreg'', ghidra_trace_putreg h),
      (''delreg'', ghidra_trace_delreg h),
      (''create-obj'', ghidra_trace_create_obj h),
      (''insert-obj'', ghidra_trace_insert_obj h),
      (''remove-obj'', ghidra_trace_remove_obj h),
      (''set-value'', ghidra_trace_set_value h),
      (''retain-values'', ghidra_trace_retain_values h),
      (''disassemble'', ghidra_trace_disassemble h),
      (''put-processes'', ghidra_trace_put_processes h),
      (''put-available'', ghidra_trace_put_available h),
      (''put-breakpoints'', ghidra_trace_put_breakpoints h),
      (''put-watchpoints'', ghidra_trace_put_watchpoints h),
      (''put-environment'', ghidra_trace_put_environment h),
      (''put-regions'', ghidra_trace_put_regions h),
      (''put-modules'', ghidra_trace_put_modules h),
      (''put-threads'', ghidra_trace_put_threads h),
      (''put-frames'', ghidra_trace_put_frames h),
      (''put-all'', ghidra_trace_put_all h)]"

datatype command_line =
    GhidraTrace string "string list"
  | GhidraTraceTxOpen "string list" command_line
  | Foreign return_status

primrec HandleCommand :: "host \<Rightarrow> command_line \<Rightarrow> world \<Rightarrow> world" where
  "HandleCommand h (GhidraTrace name args) =
     (case map_of (registry h) name of
        Some command \<Rightarrow> command args
      | None \<Rightarrow> (\<lambda>w. w\<lparr>result := Failed ''invalid command''\<rparr>))"
| "HandleCommand h (GhidraTraceTxOpen args nested) =
     ghidra_trace_txopen h (\<lambda>cmd. HandleCommand h nested) args"
| "HandleCommand h (Foreign status) = (\<lambda>w. w\<lparr>result := status\<rparr>)"

text \<open>A session: command lines handled one after the other, each with what the host answers then.\<close>

primrec run :: "(host \<times> command_line) list \<Rightarrow> world \<Rightarrow> world" where
  "run [] w = w"
| "run (c # cs) w = run cs (HandleCommand (fst c) (snd c) w)"

text \<open>
  The commands that write into the trace: memory, registers, objects and their values,
  disassembly, the synchronizers, and snapshots.
\<close>

definition mutating_commands :: "string list" where
  "mutating_commands =
     [''putmem'', ''putval'', ''putmem-state'', ''delmem'', ''putreg'', ''delreg'',
      ''create-obj'', ''insert-obj'', ''remove-obj'', ''set-value'', ''retain-values'',
      ''disassemble'', ''put-processes'', ''put-available'', ''put-breakpoints'',
      ''put-watchpoints'', ''put-environment'', ''put-regions'', ''put-modules'',
      ''put-threads'', ''put-frames'', ''put-all'', ''new-snap'']"

text \<open>
  What each of them checks of its arguments before it looks for a transaction: the number
  of arguments, for \<open>putmem\<close> and \<open>putmem-state\<close> with the optional last argument the
  evaluation of the expression that gives the pages flag, for \<open>retain-values\<close> the parsing
  of the options, and for \<open>new-snap\<close> with a snapshot number its conversion. \<open>putreg\<close>
  looks for the transaction first, so it has no such check.
\<close>

definition evaluates :: "host \<Rightarrow> string \<Rightarrow> bool" where
  "evaluates h expr = (case get_eval (util h) expr of Inl e \<Rightarrow> False | Inr v \<Rightarrow> True)"

definition arguments_accepted :: "host \<Rightarrow> string \<Rightarrow> string list \<Rightarrow> bool" where
  "arguments_accepted h name args =
     (if name = ''putmem'' then
        length args = 2 \<or> (length args = 3 \<and> evaluates h (args ! 2))
      else if name = ''putval'' then length args = 1
      else if name = ''putmem-state'' then
        length args = 3 \<or> (length args = 4 \<and> evaluates h (args ! 2))
      else if name = ''delmem'' then length args = 2
      else if name = ''putreg'' then True
      else if name = ''delreg'' then length args \<le> 1
      else if name = ''create-obj'' \<or> name = ''insert-obj'' \<or> name = ''remove-obj''
          \<or> name = ''disassemble'' then length args = 1
      else if name = ''set-value'' then length args = 3 \<or> length args = 4
      else if name = ''retain-values'' then
        (case retain_values_parse_args (lib h) args of
           Inl e \<Rightarrow> False
         | Inr (kinds, rest) \<Rightarrow> rest \<noteq> [])
      else if name = ''new-snap'' then
        length args = 1 \<or>
        (length args = 2 \<and> (case py_int (lib h) (args ! 0) of Inl e \<Rightarrow> False | Inr n \<Rightarrow> True))
      else length args = 0)"

definition session_error :: "world \<Rightarrow> string" where
  "session_error w =
     (if trace (STATE w) = None then ''No trace active'' else ''No transaction'')"

text \<open>The nesting of the session's resources.\<close>

definition strictly_nested :: "State \<Rightarrow> bool" where
  "strictly_nested s =
     ((tx s \<noteq> None \<longrightarrow> trace s \<noteq> None) \<and> (trace s \<noteq> None \<longrightarrow> client s \<noteq> None))"

subsection \<open>Waiting for the process to stop\<close>

text \<open>
  The names and values of LLDB's \<^verbatim>\<open>StateType\<close> enumeration, as attributes of the module
  \<^verbatim>\<open>lldb\<close>; reading an attribute the module does not have raises.
\<close>

definition lldb_StateType :: "(string \<times> int) list" where
  "lldb_StateType =
     [(''eStateInvalid'', 0), (''eStateUnloaded'', 1), (''eStateConnected'', 2),
      (''eStateAttaching'', 3), (''eStateLaunching'', 4), (''eStateStopped'', 5),
      (''eStateRunning'', 6), (''eStateStepping'', 7), (''eStateCrashed'', 8),
      (''eStateDetached'', 9), (''eStateExited'', 10), (''eStateSuspended'', 11)]"

definition lldb_attribute :: "string \<Rightarrow> error + int" where
  "lldb_attribute name =
     (case map_of lldb_StateType name of
        Some v \<Rightarrow> Inr v
      | None \<Rightarrow> Inl (AttributeError
          (''module '' @ quote @ ''lldb'' @ quote @ '' has no attribute '' @ quote @ name @ quote)))"

text \<open>
  What the utility observes while it waits: the \<open>i\<close>-th answer of \<^verbatim>\<open>util.get_process()\<close>
  (which may be \<^verbatim>\<open>None\<close>) and the \<open>i\<close>-th reading of the clock, in seconds.
\<close>

record wait_host =
  process_at :: "nat \<Rightarrow> SBProcess option"
  time_at :: "nat \<Rightarrow> rat"
  int_of_string :: "string \<Rightarrow> error + int"

text \<open>
  The loop, entered with the process of the \<open>i\<close>-th observation already read. It may run
  for ever, so it is a partial function: \<open>None\<close> is not returning.
\<close>

partial_function (option) wait_loop ::
    "wait_host \<Rightarrow> rat \<Rightarrow> int \<Rightarrow> nat \<Rightarrow> world \<Rightarrow> ((error + SBProcess option) \<times> world) option" where
  "wait_loop wh start timeout i w =
     (case process_at wh i of
        None \<Rightarrow> Some (Inr None, w)
      | Some p \<Rightarrow>
          (case lldb_attribute ''eStateRunnig'' of
             Inl e \<Rightarrow> Some (Inl e, w)
           | Inr running \<Rightarrow>
               if state p = running then
                 (let w' = w\<lparr>log := log w @ [TimeSleep]\<rparr> in
                  if time_at wh (Suc i) - start > of_int timeout
                  then Some (Inl (RuntimeError ''Timed out waiting for thread to stop''), w')
                  else wait_loop wh start timeout (Suc i) w')
               else Some (Inr (Some p), w)))"

definition wait_stopped :: "wait_host \<Rightarrow> int \<Rightarrow> world \<Rightarrow> ((error + unit) \<times> world) option" where
  "wait_stopped wh timeout w =
     (case wait_loop wh (time_at wh 0) timeout 0 w of
        None \<Rightarrow> None
      | Some (Inl e, w') \<Rightarrow> Some (Inl e, w')
      | Some (Inr None, w') \<Rightarrow>
          Some (Inl (AttributeError ''NoneType object has no attribute state''), w')
      | Some (Inr (Some p), w') \<Rightarrow>
          Some (Inr (), w'\<lparr>log := log w' @ [Print (''Finished wait. State='' @ str_int (state p))]\<rparr>))"

text \<open>
  The command: \<open>None\<close> when it does not return, else the world it leaves, with the result
  as \<open>convert_errors\<close> sets it.
\<close>

definition ghidra_util_wait_stopped :: "wait_host \<Rightarrow> string list \<Rightarrow> world \<Rightarrow> world option" where
  "ghidra_util_wait_stopped wh args w =
     (let finish = (\<lambda>r. case r of
            (Inr u, w') \<Rightarrow> w'\<lparr>result := SuccessFinishNoResult\<rparr>
          | (Inl e, w') \<Rightarrow> w'\<lparr>result := Failed (str_error e)\<rparr>);
          w0 = w\<lparr>result := Cleared\<rparr>
      in
        case args of
          [] \<Rightarrow> map_option finish (wait_stopped wh 1 w0)
        | [seconds] \<Rightarrow>
            (case int_of_string wh seconds of
               Inl e \<Rightarrow> Some (finish (Inl e, w0))
             | Inr timeout \<Rightarrow> map_option finish (wait_stopped wh timeout w0))
        | _ \<Rightarrow> Some (finish (Inl (RuntimeError ''Usage: ghidra util wait-stopped [SECONDS]''),
            w0)))"

subsection \<open>A concrete host and session\<close>

text \<open>
  A small target, used to run the commands on concrete inputs: one process (id 7) with one
  stopped thread (id 3) and one frame, the default memory mapper over the space \<open>ram\<close>,
  and an expression \<open>x\<close> whose value is four bytes at address 4096.
\<close>

definition example_value :: SBValue where
  "example_value =
     SBValue (Some ''x'') (PlainType eBasicTypeInt ''int'' None False) (Some ''1'') 1 None
       \<lparr>byte_order = 4, uint8s = [1, 0, 0, 0]\<rparr> \<lparr>IsValid = True, load_address = 4096\<rparr> 4
       ''(int) x = 1'' []"

definition example_frame :: SBFrame where
  "example_frame =
     \<lparr>GetFrameID = 0, GetPC = 4096, GetFunctionName = Some ''main'', GetRegisters = [],
      frame_description = ''frame #0''\<rparr>"

definition example_thread :: SBThread where
  "example_thread =
     \<lparr>GetThreadID = 3, GetThreadName = Some ''main'', frames = [example_frame],
      IsSuspended = False, IsStopped = True, thread_description = ''thread #1''\<rparr>"

definition example_process :: SBProcess where
  "example_process =
     \<lparr>GetProcessID = 7, is_running = False, is_stopped = True, state = 5,
      threads = [example_thread],
      ReadMemory = (\<lambda>start n. if 0 \<le> start then Some [127, 69] else None),
      GetMemoryRegionInfo_Success = (\<lambda>a. False)\<rparr>"

definition example_mapper :: DefaultMemoryMapper where
  "example_mapper off = (''ram'', \<lparr>space = ''ram'', offset = off\<rparr>)"

definition example_util :: util_host where
  "example_util =
     \<lparr>parse_and_eval = (\<lambda>s. if s = ''4100'' then Inr 4100 else if s = ''0'' then Inr 0
         else if s = ''-4'' then Inr (- 4) else Inl (ValueError ''undeclared identifier'')),
      get_eval = (\<lambda>s. if s = ''x'' then Inr example_value
         else Inl (ValueError ''undeclared identifier'')),
      get_process = example_process,
      get_target = \<lparr>GetNumModules = 0, executable_basename = Some ''a.out'',
         breakpoints = [], watchpoints = []\<rparr>,
      selected_thread = Some example_thread,
      selected_frame = Some example_frame,
      get_convenience_variable = (\<lambda>n. ''auto''),
      LLDB_VERSION_full = ''17.0.6'',
      LLDB_VERSION_display = ''lldb 17.0.6'',
      get_regions = None,
      full_mem = \<lparr>region_start = 0, region_end = 18446744073709551616, region_offset = 0,
         perms = None, objfile = ''full memory''\<rparr>,
      get_modules = []\<rparr>"

definition example_host :: host where
  "example_host =
     \<lparr>util = example_util,
      arch = \<lparr>compute_ghidra_lcsp = (''x86:LE:64:default'', ''gcc''),
         compute_memory_mapper = (\<lambda>l. example_mapper),
         compute_register_mapper = (\<lambda>l. \<lparr>map_name = (\<lambda>n. n), map_value = RegVal\<rparr>),
         get_arch = ''x86_64'', get_osabi = ''linux'', get_endian = ''little''\<rparr>,
      lib = \<lparr>py_int = (\<lambda>s. if s = ''15000'' then Inr 15000
           else Inl (ValueError ''invalid literal for int()'')),
         socket_connect = (\<lambda>a p. None),
         socket_accept = (\<lambda>a p. Inr ((a, p), (''127.0.0.1'', 40000))),
         currentframe_is_None = False,
         read_schema_xml = Inr ''<context/>'',
         process_iter = [(1, ''init'')],
         retain_values_parse_args = (\<lambda>args. Inr (''elements'', args)),
         decode = (\<lambda>b enc. Inr (map (\<lambda>x. char_of (unat x)) b))\<rparr>,
      remote = \<lparr>validate_state = (\<lambda>s. if s \<in> set [''known'', ''unknown'', ''error''] then None
           else Some (ValueError ''Invalid memory state'')),
         put_bytes_reply = (\<lambda>a b. Count (int (length b))),
         object_id = (\<lambda>p. ''1''),
         insert_span = (\<lambda>p. ''[0,+inf)''),
         disassemble_length = (\<lambda>a. ''1'')\<rparr>\<rparr>"

definition example_trace :: Trace where
  "example_trace =
     \<lparr>trace_name = ''lldb/a.out'',
      extra = \<lparr>memory_mapper = Some example_mapper,
        register_mapper = Some \<lparr>map_name = (\<lambda>n. n), map_value = RegVal\<rparr>\<rparr>\<rparr>"

definition disconnected :: world where
  "disconnected = \<lparr>STATE = \<lparr>client = None, trace = None, tx = None\<rparr>, log = [], result = Cleared\<rparr>"

definition connected :: world where
  "connected =
     \<lparr>STATE = \<lparr>client = Some (Client ''lldb-17.0.6''), trace = None, tx = None\<rparr>,
      log = [], result = Cleared\<rparr>"

definition traced :: world where
  "traced =
     \<lparr>STATE = \<lparr>client = Some (Client ''lldb-17.0.6''), trace = Some example_trace, tx = None\<rparr>,
      log = [], result = Cleared\<rparr>"

definition in_transaction :: world where
  "in_transaction =
     \<lparr>STATE = \<lparr>client = Some (Client ''lldb-17.0.6''), trace = Some example_trace,
        tx = Some (Transaction ''tx'' False)\<rparr>,
      log = [], result = Cleared\<rparr>"

section \<open>Properties\<close>

subsection \<open>Decimal rendering is injective\<close>

lemma str_nat_nonempty: "str_nat n \<noteq> []"
  by (subst str_nat.simps) simp

lemma digit_char_inj: "a < 10 \<Longrightarrow> b < 10 \<Longrightarrow> digit_char a = digit_char b \<Longrightarrow> a = b"
proof -
  assume a: "a < 10" and b: "b < 10" and e: "digit_char a = digit_char b"
  have d: "distinct ''0123456789abcdef''" by simp
  have "a < length ''0123456789abcdef''" "b < length ''0123456789abcdef''"
    using a b by simp_all
  with d e show "a = b"
    unfolding digit_char_def by (simp only: nth_eq_iff_index_eq)
qed

lemma digit_char_decimal: "d < 10 \<Longrightarrow> digit_char d \<in> set ''0123456789''"
proof -
  assume "d < 10"
  then have "d \<in> {0, 1, 2, 3, 4, 5, 6, 7, 8, 9}" by auto
  then show ?thesis unfolding digit_char_def by auto
qed

lemma str_nat_digits: "set (str_nat n) \<subseteq> set ''0123456789''"
proof (induction n rule: str_nat.induct)
  case (1 n)
  show ?case
  proof (cases "n < 10")
    case True
    then show ?thesis
      using digit_char_decimal [of n] by (subst str_nat.simps) simp
  next
    case False
    have "n mod 10 < 10" by simp
    then have "digit_char (n mod 10) \<in> set ''0123456789''"
      by (rule digit_char_decimal)
    with False 1 show ?thesis
      by (subst str_nat.simps) simp
  qed
qed

lemma str_nat_inj: "str_nat n = str_nat m \<Longrightarrow> n = m"
proof (induction n arbitrary: m rule: str_nat.induct)
  case (1 n)
  show ?case
  proof (cases "n < 10")
    case n: True
    show ?thesis
    proof (cases "m < 10")
      case True
      with n 1(2) show ?thesis
        by (simp add: str_nat.simps [of n] str_nat.simps [of m] digit_char_inj)
    next
      case False
      with n 1(2) show ?thesis
        by (simp add: str_nat.simps [of n] str_nat.simps [of m] str_nat_nonempty [THEN not_sym])
    qed
  next
    case n: False
    show ?thesis
    proof (cases "m < 10")
      case True
      with n 1(2) show ?thesis
        by (simp add: str_nat.simps [of n] str_nat.simps [of m] str_nat_nonempty)
    next
      case False
      with n 1(2) have e: "str_nat (n div 10) = str_nat (m div 10)"
        and d: "digit_char (n mod 10) = digit_char (m mod 10)"
        by (simp_all add: str_nat.simps [of n] str_nat.simps [of m])
      from 1(1) [OF n e] have q: "n div 10 = m div 10" .
      have "n mod 10 < 10" "m mod 10 < 10" by simp_all
      with d have r: "n mod 10 = m mod 10" by (metis digit_char_inj)
      have "n = 10 * (n div 10) + n mod 10" by simp
      also have "\<dots> = 10 * (m div 10) + m mod 10" using q r by simp
      also have "\<dots> = m" by simp
      finally show ?thesis .
    qed
  qed
qed

lemma str_nat_no_minus: "CHR ''-'' \<notin> set (str_nat n)"
  using str_nat_digits [of n] by auto

lemma str_int_inj: "str_int i = str_int j \<Longrightarrow> i = j"
proof -
  assume e: "str_int i = str_int j"
  have hd_nat: "\<And>n. hd (str_nat n) \<noteq> CHR ''-''"
    using str_nat_no_minus str_nat_nonempty by (metis hd_in_set)
  show "i = j"
  proof (cases "i < 0")
    case i: True
    show ?thesis
    proof (cases "j < 0")
      case True
      with i e have "str_nat (nat (- i)) = str_nat (nat (- j))"
        by (simp add: str_int_def)
      then have "nat (- i) = nat (- j)" by (rule str_nat_inj)
      with i True show ?thesis by simp
    next
      case False
      with i e have "CHR ''-'' # str_nat (nat (- i)) = str_nat (nat j)"
        by (simp add: str_int_def)
      then have "hd (str_nat (nat j)) = CHR ''-''" by (metis list.sel(1))
      with hd_nat show ?thesis by blast
    qed
  next
    case i: False
    show ?thesis
    proof (cases "j < 0")
      case True
      with i e have "str_nat (nat i) = CHR ''-'' # str_nat (nat (- j))"
        by (simp add: str_int_def)
      then have "hd (str_nat (nat i)) = CHR ''-''" by (metis list.sel(1))
      with hd_nat show ?thesis by blast
    next
      case False
      with i e have "str_nat (nat i) = str_nat (nat j)"
        by (simp add: str_int_def)
      then have "nat i = nat j" by (rule str_nat_inj)
      with i False show ?thesis by simp
    qed
  qed
qed

lemma str_int_no_bracket: "CHR '']'' \<notin> set (str_int i)"
  using str_nat_digits [of "nat i"] str_nat_digits [of "nat (- i)"]
  by (auto simp: str_int_def)

lemma bracket_split:
  "CHR '']'' \<notin> set a \<Longrightarrow> CHR '']'' \<notin> set b \<Longrightarrow>
   a @ CHR '']'' # r = b @ CHR '']'' # r' \<Longrightarrow> a = b \<and> r = r'"
proof (induction a arbitrary: b)
  case Nil
  then show ?case by (cases b) auto
next
  case (Cons x a)
  then show ?case by (cases b) auto
qed

subsection \<open>Frame paths\<close>

lemma frame_path_shape:
  "FRAME_PATTERN p t l =
     ''Processes['' @ str_int p @ CHR '']'' #
       (''.Threads['' @ str_int t @ CHR '']'' # (''.Stack['' @ str_int l @ CHR '']'' # []))"
  by (simp add: FRAME_PATTERN_def FRAME_KEY_PATTERN_def STACK_PATTERN_def THREAD_PATTERN_def
      THREAD_KEY_PATTERN_def THREADS_PATTERN_def PROCESS_PATTERN_def PROCESS_KEY_PATTERN_def
      PROCESSES_PATH_def)

lemma frame_path_inj:
  assumes "FRAME_PATTERN p t l = FRAME_PATTERN p' t' l'"
  shows "p = p' \<and> t = t' \<and> l = l'"
proof -
  let ?rest = "\<lambda>t l. ''.Threads['' @ str_int t @ CHR '']'' # (''.Stack['' @ str_int l @ CHR '']'' # [])"
  let ?rest2 = "\<lambda>l. ''.Stack['' @ str_int l @ CHR '']'' # []"
  from assms have "str_int p @ CHR '']'' # ?rest t l = str_int p' @ CHR '']'' # ?rest t' l'"
    by (simp add: frame_path_shape)
  then have 1: "str_int p = str_int p'" and r1: "?rest t l = ?rest t' l'"
    using bracket_split [OF str_int_no_bracket str_int_no_bracket] by blast+
  from r1 have "str_int t @ CHR '']'' # ?rest2 l = str_int t' @ CHR '']'' # ?rest2 l'"
    by simp
  then have 2: "str_int t = str_int t'" and r2: "?rest2 l = ?rest2 l'"
    using bracket_split [OF str_int_no_bracket str_int_no_bracket] by blast+
  from r2 have 3: "str_int l = str_int l'" by simp
  from 1 2 3 show ?thesis by (simp add: str_int_inj)
qed

text \<open>
  Claim C7. Frame path construction is deterministic: process id 7, thread id 3 and frame
  level 0 give exactly \<^verbatim>\<open>Processes[7].Threads[3].Stack[0]\<close>, and two triples of
  identifiers give the same frame path only when they are the same triple.
\<close>

theorem frame_path_construction:
  "FRAME_PATTERN 7 3 0 = ''Processes[7].Threads[3].Stack[0]'' \<and>
   ((FRAME_PATTERN p t l = FRAME_PATTERN p' t' l') = ((p, t, l) = (p', t', l')))"
proof
  show "FRAME_PATTERN 7 3 0 = ''Processes[7].Threads[3].Stack[0]''"
    by (simp add: frame_path_shape str_int_def str_nat.simps [of 7] str_nat.simps [of 3]
        str_nat.simps [of 0] digit_char_def)
  show "(FRAME_PATTERN p t l = FRAME_PATTERN p' t' l') = ((p, t, l) = (p', t', l'))"
    using frame_path_inj [of p t l p' t' l'] by auto
qed

subsection \<open>Page quantization\<close>

text \<open>
  Claim C1, as stated, fails: the end offset 8300 lies above the page boundary 8192, so
  rounding it up to a page boundary gives 12288, not 8192.
\<close>

theorem quantize_pages_example_counterexample:
  "quantize_pages 4100 8300 \<noteq> (4096, 8192)"
  by (simp add: quantize_pages_def PAGE_SIZE_def)

text \<open>
  Claim C1, amended. \<open>quantize_pages\<close> applied to start 4100 and end 8300 returns
  (4096, 12288); in general it returns the start rounded down to a page boundary (the
  greatest multiple of 4096 that is at most the start) and the end rounded up to a page
  boundary (the least multiple of 4096 that is at least the end).
\<close>

theorem quantize_pages_rounds:
  "quantize_pages 4100 8300 = (4096, 12288) \<and>
   PAGE_SIZE dvd fst (quantize_pages s e) \<and>
   fst (quantize_pages s e) \<le> s \<and> s < fst (quantize_pages s e) + PAGE_SIZE \<and>
   PAGE_SIZE dvd snd (quantize_pages s e) \<and>
   e \<le> snd (quantize_pages s e) \<and> snd (quantize_pages s e) < e + PAGE_SIZE"
proof -
  have ex: "quantize_pages 4100 8300 = (4096, 12288)"
    by (simp add: quantize_pages_def PAGE_SIZE_def)
  have rounding: "x div 4096 * 4096 \<le> x \<and> x < x div 4096 * 4096 + 4096" for x :: int
  proof -
    have "x div 4096 * 4096 = x - x mod 4096" by (simp add: minus_mod_eq_div_mult)
    moreover have "0 \<le> x mod 4096" "x mod 4096 < 4096" by simp_all
    ultimately show ?thesis by linarith
  qed
  have lo: "s div 4096 * 4096 \<le> s" "s < s div 4096 * 4096 + 4096"
    using rounding [of s] by simp_all
  have hi: "e \<le> (e + 4096 - 1) div 4096 * 4096" "(e + 4096 - 1) div 4096 * 4096 < e + 4096"
    using rounding [of "e + 4096 - 1"] by simp_all
  show ?thesis
    using ex lo hi by (simp add: quantize_pages_def PAGE_SIZE_def)
qed

subsection \<open>Register bytes\<close>

text \<open>
  Claim C5. \<open>data_to_reg_bytes\<close> reverses the byte sequence when the source order is
  little-endian and leaves it unchanged when it is big-endian; for both orders, undoing
  the transformation (reversing again for little-endian, nothing for big-endian, which is
  \<open>data_to_reg_bytes\<close> at the same order once more) gives back the original bytes.
\<close>

theorem data_to_reg_bytes_roundtrip:
  assumes "byte_order d = eByteOrderBig \<or> byte_order d = eByteOrderLittle"
  shows "data_to_reg_bytes d =
           Inr (if byte_order d = eByteOrderLittle then rev (uint8s d) else uint8s d) \<and>
         (\<exists>bs. data_to_reg_bytes d = Inr bs \<and>
            (if byte_order d = eByteOrderLittle then rev bs else bs) = uint8s d \<and>
            data_to_reg_bytes (d\<lparr>uint8s := bs\<rparr>) = Inr (uint8s d))"
  using assms
  by (auto simp: data_to_reg_bytes_def get_byte_order_def eByteOrderBig_def
      eByteOrderLittle_def)

theorem data_to_reg_bytes_roundtrip_witness:
  "data_to_reg_bytes \<lparr>byte_order = 4, uint8s = [1, 2, 3]\<rparr> = Inr [3, 2, 1] \<and>
   data_to_reg_bytes \<lparr>byte_order = 4, uint8s = [3, 2, 1]\<rparr> = Inr [1, 2, 3] \<and>
   data_to_reg_bytes \<lparr>byte_order = 1, uint8s = [1, 2, 3]\<rparr> = Inr [1, 2, 3]"
  using data_to_reg_bytes_roundtrip [of "\<lparr>byte_order = 4, uint8s = [1, 2, 3]\<rparr>"]
    data_to_reg_bytes_roundtrip [of "\<lparr>byte_order = 1, uint8s = [1, 2, 3]\<rparr>"]
  by (simp add: eByteOrderBig_def eByteOrderLittle_def)

subsection \<open>Memory commands\<close>

lemmas action_defs =
  bind_def seq_def return_def raise_def lift_def emit_def store_def when_do_def

lemmas example_defs =
  example_host_def example_util_def example_process_def example_thread_def example_frame_def
  example_value_def example_trace_def example_mapper_def

lemma put_bytes_empty:
  assumes "(if pages then quantize_pages start end else (start, end)) = (s, e)"
    and "e - s \<le> 0"
  shows "put_bytes h start end rg pages w =
           (if trace (STATE w) = None then Inl (RuntimeError ''No trace active'') else Inr (), w)"
  using assms
  by (cases "trace (STATE w)") (simp_all add: put_bytes_def require_trace_def action_defs)

text \<open>
  Claim C10. Whenever the (possibly page-quantized) range handed to \<open>put_bytes\<close> has
  \<open>end - start \<le> 0\<close>, the function stops before reading target memory and before any
  call to the trace: the world it leaves is the world it was given, nothing is added to the
  log of calls, and it returns normally (with no trace active, \<open>require_trace\<close> raises
  instead). In particular so does \<open>putmem\<close> with pages false and a nonpositive length.
\<close>

theorem put_bytes_empty_range_no_effect:
  "((case (if pages then quantize_pages start end else (start, end)) of (s, e) \<Rightarrow> e - s \<le> 0) \<longrightarrow>
      put_bytes h start end rg pages w =
        (if trace (STATE w) = None then Inl (RuntimeError ''No trace active'') else Inr (), w)) \<and>
   (parse_and_eval (util h) address = Inr a \<and> parse_and_eval (util h) len = Inr n \<and> n \<le> 0 \<longrightarrow>
      putmem h address len rg False w =
        (if trace (STATE w) = None then Inl (RuntimeError ''No trace active'') else Inr (), w))"
proof (intro conjI impI)
  assume "case (if pages then quantize_pages start end else (start, end)) of (s, e) \<Rightarrow> e - s \<le> 0"
  then obtain s e where "(if pages then quantize_pages start end else (start, end)) = (s, e)"
    and "e - s \<le> 0"
    by (cases "if pages then quantize_pages start end else (start, end)") auto
  then show "put_bytes h start end rg pages w =
      (if trace (STATE w) = None then Inl (RuntimeError ''No trace active'') else Inr (), w)"
    by (rule put_bytes_empty)
next
  assume a: "parse_and_eval (util h) address = Inr a \<and> parse_and_eval (util h) len = Inr n \<and> n \<le> 0"
  then have r: "eval_range h address len w = (Inr (a, a + n), w)"
    by (simp add: eval_range_def eval_address_def action_defs)
  have "put_bytes h a (a + n) rg False w =
      (if trace (STATE w) = None then Inl (RuntimeError ''No trace active'') else Inr (), w)"
    using a by (intro put_bytes_empty [where s = a and e = "a + n"]) simp_all
  with r show "putmem h address len rg False w =
      (if trace (STATE w) = None then Inl (RuntimeError ''No trace active'') else Inr (), w)"
    by (simp add: putmem_def bind_def)
qed

theorem put_bytes_empty_range_no_effect_witness:
  "put_bytes example_host 4100 4100 True False in_transaction = (Inr (), in_transaction) \<and>
   put_bytes example_host 0 0 True True in_transaction = (Inr (), in_transaction) \<and>
   putmem example_host ''4100'' ''-4'' True False in_transaction = (Inr (), in_transaction)"
  using put_bytes_empty_range_no_effect
    [of False 4100 4100 example_host True in_transaction "''4100''" 4100 "''-4''" "- 4"]
    put_bytes_empty_range_no_effect
    [of True 0 0 example_host True in_transaction "''4100''" 4100 "''-4''" "- 4"]
  by (simp add: quantize_pages_def PAGE_SIZE_def in_transaction_def example_host_def
      example_util_def)

text \<open>
  Claim C2. In the \<open>putval\<close> command, for every evaluated expression whose value has a
  valid address, the range handed to \<open>put_bytes\<close> starts at the value's address and ends at
  \<open>start + start + size\<close>: the start offset is counted twice.
\<close>

theorem putval_end_counts_start_twice:
  assumes "trace (STATE w) = Some t" and "tx (STATE w) = Some x"
    and "get_eval (util h) expression = Inr v" and "IsValid (GetAddress v)"
    and "start = load_address (GetAddress v)"
  shows "ghidra_trace_putval h [expression] w =
           convert_errors (put_bytes h start (start + start + size_bytes v) True True) w"
  using assms
  by (simp add: ghidra_trace_putval_def putval_body_def convert_errors_def require_tx_def
      require_trace_def action_defs Let_def)

theorem putval_end_counts_start_twice_witness:
  "ghidra_trace_putval example_host [''x''] in_transaction =
     convert_errors (put_bytes example_host 4096 (4096 + 4096 + 4) True True) in_transaction \<and>
   log (ghidra_trace_putval example_host [''x''] in_transaction) =
     [ProcReadMemory 4096 8192,
      Store (PutBytes \<lparr>space = ''ram'', offset = 4096\<rparr> [127, 69]),
      PutCString ''Wrote 2 bytes'']"
proof -
  have 1: "trace (STATE in_transaction) = Some example_trace"
    by (simp add: in_transaction_def)
  have 2: "tx (STATE in_transaction) = Some (Transaction ''tx'' False)"
    by (simp add: in_transaction_def)
  have 3: "get_eval (util example_host) ''x'' = Inr example_value"
    by (simp add: example_host_def example_util_def)
  have 4: "IsValid (GetAddress example_value)"
    by (simp add: example_value_def)
  have 5: "4096 = load_address (GetAddress example_value)"
    by (simp add: example_value_def)
  have 6: "size_bytes example_value = 4"
    by (simp add: example_value_def)
  have e: "ghidra_trace_putval example_host [''x''] in_transaction =
      convert_errors (put_bytes example_host 4096 (4096 + 4096 + 4) True True) in_transaction"
    using putval_end_counts_start_twice [OF 1 2 3 4 5] by (simp only: 6)
  have "log (convert_errors (put_bytes example_host 4096 (4096 + 4096 + 4) True True)
      in_transaction) =
     [ProcReadMemory 4096 8192,
      Store (PutBytes \<lparr>space = ''ram'', offset = 4096\<rparr> [127, 69]),
      PutCString ''Wrote 2 bytes'']"
    by (simp add: convert_errors_def put_bytes_def require_trace_def require_mm_def
        quantize_pages_def PAGE_SIZE_def in_transaction_def example_defs action_defs
        str_int_def str_nat.simps [of 2] digit_char_def)
  with e show ?thesis by simp
qed

text \<open>
  Claim C9. Called with exactly four arguments (ADDRESS LENGTH STATE PAGES),
  \<open>putmem-state\<close> computes the pages flag by evaluating the third argument, the STATE
  string; the fourth argument is never read, so the outcome does not depend on it.
\<close>

theorem putmem_state_pages_from_state_argument:
  "ghidra_trace_putmem_state h [address, len, st, pages_arg] w =
     convert_errors
       (bind (lift (get_eval (util h) st)) (\<lambda>v.
          bind require_tx (\<lambda>_.
            putmem_state h address len st (GetValueAsUnsigned v \<noteq> 0)))) w \<and>
   ghidra_trace_putmem_state h [address, len, st, pages_arg] w =
     ghidra_trace_putmem_state h [address, len, st, other_pages_arg] w"
  by (simp add: ghidra_trace_putmem_state_def Let_def)

subsection \<open>Regions\<close>

lemma for_each_single: "for_each [x] f = seq (f x) (return ())"
  by simp

lemma put_region_log:
  "put_region h mapper r w =
     (Inr (),
      w\<lparr>log := log w @
        [Store (CreateObject (REGION_PATTERN (GetProcessID (get_process (util h))) (region_start r)))] @
        (if fst (mapper (region_start r)) \<noteq> space (snd (mapper (region_start r)))
         then [Store (CreateOverlaySpace (fst (mapper (region_start r)))
                 (space (snd (mapper (region_start r)))))]
         else []) @
        [Store (SetValue (REGION_PATTERN (GetProcessID (get_process (util h))) (region_start r))
           ''Range''
           (VRange (Address_extend (snd (mapper (region_start r))) (region_end r - region_start r)))
           None)] @
        (case perms r of
           None \<Rightarrow> []
         | Some p \<Rightarrow>
             [Store (SetValue (REGION_PATTERN (GetProcessID (get_process (util h))) (region_start r))
                ''Permissions'' (VStr p) None)]) @
        [Store (SetValue (REGION_PATTERN (GetProcessID (get_process (util h))) (region_start r))
           ''_readable''
           (VBool (case perms r of None \<Rightarrow> True | Some p \<Rightarrow> CHR ''r'' \<in> set p)) None),
         Store (SetValue (REGION_PATTERN (GetProcessID (get_process (util h))) (region_start r))
           ''_writable''
           (VBool (case perms r of None \<Rightarrow> True | Some p \<Rightarrow> CHR ''w'' \<in> set p)) None),
         Store (SetValue (REGION_PATTERN (GetProcessID (get_process (util h))) (region_start r))
           ''_executable''
           (VBool (case perms r of None \<Rightarrow> True | Some p \<Rightarrow> CHR ''x'' \<in> set p)) None),
         Store (SetValue (REGION_PATTERN (GetProcessID (get_process (util h))) (region_start r))
           ''Offset'' (VStr (py_hex (region_offset r))) None),
         Store (SetValue (REGION_PATTERN (GetProcessID (get_process (util h))) (region_start r))
           ''Object File'' (VStr (objfile r)) None),
         Store (InsertObject (REGION_PATTERN (GetProcessID (get_process (util h)))
           (region_start r)))]\<rparr>)"
  by (cases "mapper (region_start r)"; cases "perms r")
    (simp_all add: put_region_def action_defs Let_def)

lemma put_regions_fallback_regions:
  assumes "\<not> should_query_regions h \<or> get_regions (util h) = None \<or> get_regions (util h) = Some []"
    and "selected_thread (util h) = Some th"
    and "trace (STATE w) = Some t" and "memory_mapper (extra t) = Some mapper"
  shows "put_regions h w =
           seq (put_region h mapper (full_mem (util h)))
             (store (RetainValues (MEMORY_PATTERN (GetProcessID (get_process (util h))))
                [REGION_KEY_PATTERN (region_start (full_mem (util h)))] ''elements'')) w"
proof -
  have "(if should_query_regions h
         then (case get_regions (util h) of Some rs \<Rightarrow> rs | None \<Rightarrow> []) else []) = []"
    using assms(1) by auto
  then show ?thesis
    using assms(2-4)
    by (simp add: put_regions_def Let_def require_trace_def require_mm_def bind_def seq_def
        return_def split: prod.splits sum.splits)
qed

text \<open>
  Claim C6. In the regions synchronizer, whenever the host yields no memory regions (the
  query is suppressed, it fails, or it returns none) and a thread is selected, exactly one
  region is written to the trace, the fallback region \<open>full_mem\<close> of the region reader:
  one object is created at its path, given its values and inserted, and the memory
  container retains exactly its key, so the container is not left empty.
\<close>

theorem put_regions_writes_fallback_region:
  assumes "\<not> should_query_regions h \<or> get_regions (util h) = None \<or> get_regions (util h) = Some []"
    and "selected_thread (util h) = Some th"
    and "trace (STATE w) = Some t" and "memory_mapper (extra t) = Some mapper"
    and "r = full_mem (util h)" and "pid = GetProcessID (get_process (util h))"
  shows "put_regions h w =
     (Inr (),
      w\<lparr>log := log w @
        [Store (CreateObject (REGION_PATTERN pid (region_start r)))] @
        (if fst (mapper (region_start r)) \<noteq> space (snd (mapper (region_start r)))
         then [Store (CreateOverlaySpace (fst (mapper (region_start r)))
                 (space (snd (mapper (region_start r)))))]
         else []) @
        [Store (SetValue (REGION_PATTERN pid (region_start r)) ''Range''
           (VRange (Address_extend (snd (mapper (region_start r))) (region_end r - region_start r)))
           None)] @
        (case perms r of
           None \<Rightarrow> []
         | Some p \<Rightarrow> [Store (SetValue (REGION_PATTERN pid (region_start r))
                          ''Permissions'' (VStr p) None)]) @
        [Store (SetValue (REGION_PATTERN pid (region_start r)) ''_readable''
           (VBool (case perms r of None \<Rightarrow> True | Some p \<Rightarrow> CHR ''r'' \<in> set p)) None),
         Store (SetValue (REGION_PATTERN pid (region_start r)) ''_writable''
           (VBool (case perms r of None \<Rightarrow> True | Some p \<Rightarrow> CHR ''w'' \<in> set p)) None),
         Store (SetValue (REGION_PATTERN pid (region_start r)) ''_executable''
           (VBool (case perms r of None \<Rightarrow> True | Some p \<Rightarrow> CHR ''x'' \<in> set p)) None),
         Store (SetValue (REGION_PATTERN pid (region_start r)) ''Offset''
           (VStr (py_hex (region_offset r))) None),
         Store (SetValue (REGION_PATTERN pid (region_start r)) ''Object File''
           (VStr (objfile r)) None),
         Store (InsertObject (REGION_PATTERN pid (region_start r))),
         Store (RetainValues (MEMORY_PATTERN pid) [REGION_KEY_PATTERN (region_start r)]
           ''elements'')]\<rparr>)"
proof -
  have "put_regions h w =
      seq (put_region h mapper r)
        (store (RetainValues (MEMORY_PATTERN pid) [REGION_KEY_PATTERN (region_start r)]
           ''elements'')) w"
    using put_regions_fallback_regions [OF assms(1-4)] assms(5,6) by simp
  then show ?thesis
    unfolding assms(6)
    by (simp add: seq_def bind_def put_region_log store_def emit_def)
qed

lemma hex08_zero: "hex08_int 0 = ''00000000''"
  by (simp add: hex08_int_def hex_nat.simps [of 0] digit_char_def eval_nat_numeral)

lemma example_memory_path: "MEMORY_PATTERN 7 = ''Processes[7].Memory''"
  by (simp add: MEMORY_PATTERN_def PROCESS_PATTERN_def PROCESS_KEY_PATTERN_def
      PROCESSES_PATH_def str_int_def str_nat.simps [of 7] digit_char_def)

lemma example_region_key: "REGION_KEY_PATTERN 0 = ''[00000000]''"
  by (simp add: REGION_KEY_PATTERN_def hex08_zero)

lemma example_region_path: "REGION_PATTERN 7 0 = ''Processes[7].Memory[00000000]''"
  by (simp add: REGION_PATTERN_def example_region_key example_memory_path)

theorem put_regions_writes_fallback_region_witness:
  "put_regions example_host in_transaction =
     (Inr (),
      in_transaction\<lparr>log :=
        [Store (CreateObject ''Processes[7].Memory[00000000]''),
         Store (SetValue ''Processes[7].Memory[00000000]'' ''Range''
           (VRange (Address_extend \<lparr>space = ''ram'', offset = 0\<rparr> 18446744073709551616)) None),
         Store (SetValue ''Processes[7].Memory[00000000]'' ''_readable'' (VBool True) None),
         Store (SetValue ''Processes[7].Memory[00000000]'' ''_writable'' (VBool True) None),
         Store (SetValue ''Processes[7].Memory[00000000]'' ''_executable'' (VBool True) None),
         Store (SetValue ''Processes[7].Memory[00000000]'' ''Offset'' (VStr ''0x0'') None),
         Store (SetValue ''Processes[7].Memory[00000000]'' ''Object File''
           (VStr ''full memory'') None),
         Store (InsertObject ''Processes[7].Memory[00000000]''),
         Store (RetainValues ''Processes[7].Memory'' [''[00000000]''] ''elements'')]\<rparr>)"
proof -
  have 1: "\<not> should_query_regions example_host \<or> get_regions (util example_host) = None \<or>
      get_regions (util example_host) = Some []"
    by (simp add: example_host_def example_util_def)
  have 2: "selected_thread (util example_host) = Some example_thread"
    by (simp add: example_host_def example_util_def)
  have 3: "trace (STATE in_transaction) = Some example_trace"
    by (simp add: in_transaction_def)
  have 4: "memory_mapper (extra example_trace) = Some example_mapper"
    by (simp add: example_trace_def)
  have 5: "\<lparr>region_start = 0, region_end = 18446744073709551616, region_offset = 0,
      perms = None, objfile = ''full memory''\<rparr> = full_mem (util example_host)"
    by (simp add: example_host_def example_util_def)
  have 6: "7 = GetProcessID (get_process (util example_host))"
    by (simp add: example_host_def example_util_def example_process_def)
  have 7: "log in_transaction = []"
    by (simp add: in_transaction_def)
  have 8: "py_hex 0 = ''0x0''"
    by (simp add: py_hex_def hex_nat.simps [of 0] digit_char_def)
  show ?thesis
    using put_regions_writes_fallback_region [OF 1 2 3 4 5 6]
    by (simp add: 7 8 example_region_path example_memory_path example_region_key
        example_mapper_def)
qed

subsection \<open>Waiting for the process to stop\<close>

lemma no_attribute_eStateRunnig:
  "lldb_attribute ''eStateRunnig'' =
     Inl (AttributeError (''module '' @ quote @ ''lldb'' @ quote @ '' has no attribute ''
       @ quote @ ''eStateRunnig'' @ quote))"
  by (simp add: lldb_attribute_def lldb_StateType_def)

lemma wait_loop_with_process:
  "process_at wh i = Some p \<Longrightarrow>
   wait_loop wh start timeout i w =
     Some (Inl (AttributeError (''module '' @ quote @ ''lldb'' @ quote @ '' has no attribute ''
       @ quote @ ''eStateRunnig'' @ quote)), w)"
  by (subst wait_loop.simps) (simp add: no_attribute_eStateRunnig)

text \<open>
  Claim C8 does not hold of the code. The condition of the loop reads the attribute
  \<^verbatim>\<open>eStateRunnig\<close> of the module \<^verbatim>\<open>lldb\<close>, which the module does not have (its state
  is \<^verbatim>\<open>eStateRunning\<close>). So whenever there is a process, whatever its state and however
  long it keeps running, the command returns at once with the attribute error: it never
  sleeps, never polls again and never reports the timeout.
\<close>

theorem wait_stopped_fails_before_polling:
  assumes "process_at wh 0 = Some p"
  shows "ghidra_util_wait_stopped wh [] w =
     Some (w\<lparr>result := Failed (''module '' @ quote @ ''lldb'' @ quote @ '' has no attribute ''
        @ quote @ ''eStateRunnig'' @ quote)\<rparr>)"
  using assms
  by (simp add: ghidra_util_wait_stopped_def wait_stopped_def wait_loop_with_process)

theorem wait_stopped_fails_before_polling_witness:
  "ghidra_util_wait_stopped
     \<lparr>process_at = (\<lambda>i. Some (example_process\<lparr>is_running := True, state := 6\<rparr>)),
      time_at = (\<lambda>i. of_nat i / 10),
      int_of_string = (\<lambda>s. Inl (ValueError ''invalid literal for int()''))\<rparr> [] traced =
     Some (traced\<lparr>result := Failed (''module '' @ quote @ ''lldb'' @ quote
        @ '' has no attribute '' @ quote @ ''eStateRunnig'' @ quote)\<rparr>) \<and>
   ''module '' @ quote @ ''lldb'' @ quote @ '' has no attribute '' @ quote @ ''eStateRunnig''
     @ quote \<noteq> ''Timed out waiting for thread to stop''"
proof -
  have 1: "process_at
      \<lparr>process_at = (\<lambda>i. Some (example_process\<lparr>is_running := True, state := 6\<rparr>)),
       time_at = (\<lambda>i. of_nat i / 10),
       int_of_string = (\<lambda>s. Inl (ValueError ''invalid literal for int()''))\<rparr> 0 =
      Some (example_process\<lparr>is_running := True, state := 6\<rparr>)"
    by simp
  show ?thesis
    using wait_stopped_fails_before_polling [OF 1, of traced] by (simp add: quote_def)
qed

subsection \<open>Commands that need a transaction\<close>

lemma require_tx_no_tx:
  "tx (STATE w) = None \<Longrightarrow> bind require_tx f w = (Inl (RuntimeError (session_error w)), w)"
  by (simp add: require_tx_def require_trace_def bind_def raise_def return_def session_error_def
      split: option.splits)

lemma bind_require_trace:
  "bind require_trace f w =
     (case trace (STATE w) of
        None \<Rightarrow> (Inl (RuntimeError ''No trace active''), w)
      | Some t \<Rightarrow> f t w)"
  by (simp add: require_trace_def bind_def raise_def return_def split: option.splits)

lemma bind_lift:
  "bind (lift r) f w = (case r of Inl e \<Rightarrow> (Inl e, w) | Inr x \<Rightarrow> f x w)"
  by (simp add: bind_def lift_def split: sum.splits)

lemma putmem_no_tx:
  assumes "tx (STATE w) = None"
  shows "\<exists>m. ghidra_trace_putmem h args w = w\<lparr>result := Failed m\<rparr>"
    and "arguments_accepted h ''putmem'' args \<Longrightarrow>
      ghidra_trace_putmem h args w = w\<lparr>result := Failed (session_error w)\<rparr>"
  using assms
  by (auto simp: ghidra_trace_putmem_def  convert_errors_def require_tx_no_tx bind_require_trace
      bind_lift raise_def arguments_accepted_def evaluates_def session_error_def
      split: list.splits sum.splits option.splits)

lemma putval_no_tx:
  assumes "tx (STATE w) = None"
  shows "\<exists>m. ghidra_trace_putval h args w = w\<lparr>result := Failed m\<rparr>"
    and "arguments_accepted h ''putval'' args \<Longrightarrow>
      ghidra_trace_putval h args w = w\<lparr>result := Failed (session_error w)\<rparr>"
  using assms
  by (auto simp: ghidra_trace_putval_def putval_body_def convert_errors_def require_tx_no_tx bind_require_trace
      bind_lift raise_def arguments_accepted_def evaluates_def session_error_def
      split: list.splits sum.splits option.splits)

lemma putmem_state_no_tx:
  assumes "tx (STATE w) = None"
  shows "\<exists>m. ghidra_trace_putmem_state h args w = w\<lparr>result := Failed m\<rparr>"
    and "arguments_accepted h ''putmem-state'' args \<Longrightarrow>
      ghidra_trace_putmem_state h args w = w\<lparr>result := Failed (session_error w)\<rparr>"
  using assms
  by (auto simp: ghidra_trace_putmem_state_def  convert_errors_def require_tx_no_tx bind_require_trace
      bind_lift raise_def arguments_accepted_def evaluates_def session_error_def
      split: list.splits sum.splits option.splits)

lemma delmem_no_tx:
  assumes "tx (STATE w) = None"
  shows "\<exists>m. ghidra_trace_delmem h args w = w\<lparr>result := Failed m\<rparr>"
    and "arguments_accepted h ''delmem'' args \<Longrightarrow>
      ghidra_trace_delmem h args w = w\<lparr>result := Failed (session_error w)\<rparr>"
  using assms
  by (auto simp: ghidra_trace_delmem_def  convert_errors_def require_tx_no_tx bind_require_trace
      bind_lift raise_def arguments_accepted_def evaluates_def session_error_def
      split: list.splits sum.splits option.splits)

lemma putreg_no_tx:
  assumes "tx (STATE w) = None"
  shows "\<exists>m. ghidra_trace_putreg h args w = w\<lparr>result := Failed m\<rparr>"
    and "arguments_accepted h ''putreg'' args \<Longrightarrow>
      ghidra_trace_putreg h args w = w\<lparr>result := Failed (session_error w)\<rparr>"
  using assms
  by (auto simp: ghidra_trace_putreg_def  convert_errors_def require_tx_no_tx bind_require_trace
      bind_lift raise_def arguments_accepted_def evaluates_def session_error_def
      split: list.splits sum.splits option.splits)

lemma delreg_no_tx:
  assumes "tx (STATE w) = None"
  shows "\<exists>m. ghidra_trace_delreg h args w = w\<lparr>result := Failed m\<rparr>"
    and "arguments_accepted h ''delreg'' args \<Longrightarrow>
      ghidra_trace_delreg h args w = w\<lparr>result := Failed (session_error w)\<rparr>"
  using assms
  by (auto simp: ghidra_trace_delreg_def delreg_group_def convert_errors_def require_tx_no_tx bind_require_trace
      bind_lift raise_def arguments_accepted_def evaluates_def session_error_def
      split: list.splits sum.splits option.splits)

lemma create_obj_no_tx:
  assumes "tx (STATE w) = None"
  shows "\<exists>m. ghidra_trace_create_obj h args w = w\<lparr>result := Failed m\<rparr>"
    and "arguments_accepted h ''create-obj'' args \<Longrightarrow>
      ghidra_trace_create_obj h args w = w\<lparr>result := Failed (session_error w)\<rparr>"
  using assms
  by (auto simp: ghidra_trace_create_obj_def  convert_errors_def require_tx_no_tx bind_require_trace
      bind_lift raise_def arguments_accepted_def evaluates_def session_error_def
      split: list.splits sum.splits option.splits)

lemma insert_obj_no_tx:
  assumes "tx (STATE w) = None"
  shows "\<exists>m. ghidra_trace_insert_obj h args w = w\<lparr>result := Failed m\<rparr>"
    and "arguments_accepted h ''insert-obj'' args \<Longrightarrow>
      ghidra_trace_insert_obj h args w = w\<lparr>result := Failed (session_error w)\<rparr>"
  using assms
  by (auto simp: ghidra_trace_insert_obj_def  convert_errors_def require_tx_no_tx bind_require_trace
      bind_lift raise_def arguments_accepted_def evaluates_def session_error_def
      split: list.splits sum.splits option.splits)

lemma remove_obj_no_tx:
  assumes "tx (STATE w) = None"
  shows "\<exists>m. ghidra_trace_remove_obj h args w = w\<lparr>result := Failed m\<rparr>"
    and "arguments_accepted h ''remove-obj'' args \<Longrightarrow>
      ghidra_trace_remove_obj h args w = w\<lparr>result := Failed (session_error w)\<rparr>"
  using assms
  by (auto simp: ghidra_trace_remove_obj_def  convert_errors_def require_tx_no_tx bind_require_trace
      bind_lift raise_def arguments_accepted_def evaluates_def session_error_def
      split: list.splits sum.splits option.splits)

lemma set_value_no_tx:
  assumes "tx (STATE w) = None"
  shows "\<exists>m. ghidra_trace_set_value h args w = w\<lparr>result := Failed m\<rparr>"
    and "arguments_accepted h ''set-value'' args \<Longrightarrow>
      ghidra_trace_set_value h args w = w\<lparr>result := Failed (session_error w)\<rparr>"
  using assms
  by (auto simp: ghidra_trace_set_value_def set_value_body_def convert_errors_def require_tx_no_tx bind_require_trace
      bind_lift raise_def arguments_accepted_def evaluates_def session_error_def
      split: list.splits sum.splits option.splits)

lemma retain_values_no_tx:
  assumes "tx (STATE w) = None"
  shows "\<exists>m. ghidra_trace_retain_values h args w = w\<lparr>result := Failed m\<rparr>"
    and "arguments_accepted h ''retain-values'' args \<Longrightarrow>
      ghidra_trace_retain_values h args w = w\<lparr>result := Failed (session_error w)\<rparr>"
  using assms
  by (auto simp: ghidra_trace_retain_values_def  convert_errors_def require_tx_no_tx bind_require_trace
      bind_lift raise_def arguments_accepted_def evaluates_def session_error_def
      split: list.splits sum.splits option.splits)

lemma disassemble_no_tx:
  assumes "tx (STATE w) = None"
  shows "\<exists>m. ghidra_trace_disassemble h args w = w\<lparr>result := Failed m\<rparr>"
    and "arguments_accepted h ''disassemble'' args \<Longrightarrow>
      ghidra_trace_disassemble h args w = w\<lparr>result := Failed (session_error w)\<rparr>"
  using assms
  by (auto simp: ghidra_trace_disassemble_def  convert_errors_def require_tx_no_tx bind_require_trace
      bind_lift raise_def arguments_accepted_def evaluates_def session_error_def
      split: list.splits sum.splits option.splits)

lemma put_processes_no_tx:
  assumes "tx (STATE w) = None"
  shows "\<exists>m. ghidra_trace_put_processes h args w = w\<lparr>result := Failed m\<rparr>"
    and "arguments_accepted h ''put-processes'' args \<Longrightarrow>
      ghidra_trace_put_processes h args w = w\<lparr>result := Failed (session_error w)\<rparr>"
  using assms
  by (auto simp: ghidra_trace_put_processes_def  convert_errors_def require_tx_no_tx bind_require_trace
      bind_lift raise_def arguments_accepted_def evaluates_def session_error_def
      split: list.splits sum.splits option.splits)

lemma put_available_no_tx:
  assumes "tx (STATE w) = None"
  shows "\<exists>m. ghidra_trace_put_available h args w = w\<lparr>result := Failed m\<rparr>"
    and "arguments_accepted h ''put-available'' args \<Longrightarrow>
      ghidra_trace_put_available h args w = w\<lparr>result := Failed (session_error w)\<rparr>"
  using assms
  by (auto simp: ghidra_trace_put_available_def  convert_errors_def require_tx_no_tx bind_require_trace
      bind_lift raise_def arguments_accepted_def evaluates_def session_error_def
      split: list.splits sum.splits option.splits)

lemma put_breakpoints_no_tx:
  assumes "tx (STATE w) = None"
  shows "\<exists>m. ghidra_trace_put_breakpoints h args w = w\<lparr>result := Failed m\<rparr>"
    and "arguments_accepted h ''put-breakpoints'' args \<Longrightarrow>
      ghidra_trace_put_breakpoints h args w = w\<lparr>result := Failed (session_error w)\<rparr>"
  using assms
  by (auto simp: ghidra_trace_put_breakpoints_def  convert_errors_def require_tx_no_tx bind_require_trace
      bind_lift raise_def arguments_accepted_def evaluates_def session_error_def
      split: list.splits sum.splits option.splits)

lemma put_watchpoints_no_tx:
  assumes "tx (STATE w) = None"
  shows "\<exists>m. ghidra_trace_put_watchpoints h args w = w\<lparr>result := Failed m\<rparr>"
    and "arguments_accepted h ''put-watchpoints'' args \<Longrightarrow>
      ghidra_trace_put_watchpoints h args w = w\<lparr>result := Failed (session_error w)\<rparr>"
  using assms
  by (auto simp: ghidra_trace_put_watchpoints_def  convert_errors_def require_tx_no_tx bind_require_trace
      bind_lift raise_def arguments_accepted_def evaluates_def session_error_def
      split: list.splits sum.splits option.splits)

lemma put_environment_no_tx:
  assumes "tx (STATE w) = None"
  shows "\<exists>m. ghidra_trace_put_environment h args w = w\<lparr>result := Failed m\<rparr>"
    and "arguments_accepted h ''put-environment'' args \<Longrightarrow>
      ghidra_trace_put_environment h args w = w\<lparr>result := Failed (session_error w)\<rparr>"
  using assms
  by (auto simp: ghidra_trace_put_environment_def  convert_errors_def require_tx_no_tx bind_require_trace
      bind_lift raise_def arguments_accepted_def evaluates_def session_error_def
      split: list.splits sum.splits option.splits)

lemma put_regions_no_tx:
  assumes "tx (STATE w) = None"
  shows "\<exists>m. ghidra_trace_put_regions h args w = w\<lparr>result := Failed m\<rparr>"
    and "arguments_accepted h ''put-regions'' args \<Longrightarrow>
      ghidra_trace_put_regions h args w = w\<lparr>result := Failed (session_error w)\<rparr>"
  using assms
  by (auto simp: ghidra_trace_put_regions_def  convert_errors_def require_tx_no_tx bind_require_trace
      bind_lift raise_def arguments_accepted_def evaluates_def session_error_def
      split: list.splits sum.splits option.splits)

lemma put_modules_no_tx:
  assumes "tx (STATE w) = None"
  shows "\<exists>m. ghidra_trace_put_modules h args w = w\<lparr>result := Failed m\<rparr>"
    and "arguments_accepted h ''put-modules'' args \<Longrightarrow>
      ghidra_trace_put_modules h args w = w\<lparr>result := Failed (session_error w)\<rparr>"
  using assms
  by (auto simp: ghidra_trace_put_modules_def  convert_errors_def require_tx_no_tx bind_require_trace
      bind_lift raise_def arguments_accepted_def evaluates_def session_error_def
      split: list.splits sum.splits option.splits)

lemma put_threads_no_tx:
  assumes "tx (STATE w) = None"
  shows "\<exists>m. ghidra_trace_put_threads h args w = w\<lparr>result := Failed m\<rparr>"
    and "arguments_accepted h ''put-threads'' args \<Longrightarrow>
      ghidra_trace_put_threads h args w = w\<lparr>result := Failed (session_error w)\<rparr>"
  using assms
  by (auto simp: ghidra_trace_put_threads_def  convert_errors_def require_tx_no_tx bind_require_trace
      bind_lift raise_def arguments_accepted_def evaluates_def session_error_def
      split: list.splits sum.splits option.splits)

lemma put_frames_no_tx:
  assumes "tx (STATE w) = None"
  shows "\<exists>m. ghidra_trace_put_frames h args w = w\<lparr>result := Failed m\<rparr>"
    and "arguments_accepted h ''put-frames'' args \<Longrightarrow>
      ghidra_trace_put_frames h args w = w\<lparr>result := Failed (session_error w)\<rparr>"
  using assms
  by (auto simp: ghidra_trace_put_frames_def  convert_errors_def require_tx_no_tx bind_require_trace
      bind_lift raise_def arguments_accepted_def evaluates_def session_error_def
      split: list.splits sum.splits option.splits)

lemma put_all_no_tx:
  assumes "tx (STATE w) = None"
  shows "\<exists>m. ghidra_trace_put_all h args w = w\<lparr>result := Failed m\<rparr>"
    and "arguments_accepted h ''put-all'' args \<Longrightarrow>
      ghidra_trace_put_all h args w = w\<lparr>result := Failed (session_error w)\<rparr>"
  using assms
  by (auto simp: ghidra_trace_put_all_def  convert_errors_def require_tx_no_tx bind_require_trace
      bind_lift raise_def arguments_accepted_def evaluates_def session_error_def
      split: list.splits sum.splits option.splits)

lemma registry_lookup:
  "map_of (registry h) ''connect'' = Some (ghidra_trace_connect h)"
  "map_of (registry h) ''listen'' = Some (ghidra_trace_listen h)"
  "map_of (registry h) ''disconnect'' = Some (ghidra_trace_disconnect h)"
  "map_of (registry h) ''start'' = Some (ghidra_trace_start h)"
  "map_of (registry h) ''stop'' = Some (ghidra_trace_stop h)"
  "map_of (registry h) ''restart'' = Some (ghidra_trace_restart h)"
  "map_of (registry h) ''tx-start'' = Some (ghidra_trace_txstart h)"
  "map_of (registry h) ''tx-commit'' = Some (ghidra_trace_txcommit h)"
  "map_of (registry h) ''tx-abort'' = Some (ghidra_trace_txabort h)"
  "map_of (registry h) ''save'' = Some (ghidra_trace_save h)"
  "map_of (registry h) ''new-snap'' = Some (ghidra_trace_new_snap h)"
  "map_of (registry h) ''putmem'' = Some (ghidra_trace_putmem h)"
  "map_of (registry h) ''putval'' = Some (ghidra_trace_putval h)"
  "map_of (registry h) ''putmem-state'' = Some (ghidra_trace_putmem_state h)"
  "map_of (registry h) ''delmem'' = Some (ghidra_trace_delmem h)"
  "map_of (registry h) ''putreg'' = Some (ghidra_trace_putreg h)"
  "map_of (registry h) ''delreg'' = Some (ghidra_trace_delreg h)"
  "map_of (registry h) ''create-obj'' = Some (ghidra_trace_create_obj h)"
  "map_of (registry h) ''insert-obj'' = Some (ghidra_trace_insert_obj h)"
  "map_of (registry h) ''remove-obj'' = Some (ghidra_trace_remove_obj h)"
  "map_of (registry h) ''set-value'' = Some (ghidra_trace_set_value h)"
  "map_of (registry h) ''retain-values'' = Some (ghidra_trace_retain_values h)"
  "map_of (registry h) ''disassemble'' = Some (ghidra_trace_disassemble h)"
  "map_of (registry h) ''put-processes'' = Some (ghidra_trace_put_processes h)"
  "map_of (registry h) ''put-available'' = Some (ghidra_trace_put_available h)"
  "map_of (registry h) ''put-breakpoints'' = Some (ghidra_trace_put_breakpoints h)"
  "map_of (registry h) ''put-watchpoints'' = Some (ghidra_trace_put_watchpoints h)"
  "map_of (registry h) ''put-environment'' = Some (ghidra_trace_put_environment h)"
  "map_of (registry h) ''put-regions'' = Some (ghidra_trace_put_regions h)"
  "map_of (registry h) ''put-modules'' = Some (ghidra_trace_put_modules h)"
  "map_of (registry h) ''put-threads'' = Some (ghidra_trace_put_threads h)"
  "map_of (registry h) ''put-frames'' = Some (ghidra_trace_put_frames h)"
  "map_of (registry h) ''put-all'' = Some (ghidra_trace_put_all h)"
  by (simp_all add: registry_def)

lemma txstart_in_transaction:
  "tx (STATE w) \<noteq> None \<Longrightarrow>
   ghidra_trace_txstart h [description] w = w\<lparr>result := Failed ''Transaction already started''\<rparr>"
  by (simp add: ghidra_trace_txstart_def convert_errors_def require_no_tx_def seq_def bind_def
      raise_def)

lemma putmem_handled:
  assumes "tx (STATE w) = None"
  shows "(\<exists>m. HandleCommand h (GhidraTrace ''putmem'' args) w = w\<lparr>result := Failed m\<rparr>) \<and>
    (arguments_accepted h ''putmem'' args \<longrightarrow>
       HandleCommand h (GhidraTrace ''putmem'' args) w = w\<lparr>result := Failed (session_error w)\<rparr>)"
  using putmem_no_tx [OF assms, of h args] by (simp add: registry_lookup)

lemma putval_handled:
  assumes "tx (STATE w) = None"
  shows "(\<exists>m. HandleCommand h (GhidraTrace ''putval'' args) w = w\<lparr>result := Failed m\<rparr>) \<and>
    (arguments_accepted h ''putval'' args \<longrightarrow>
       HandleCommand h (GhidraTrace ''putval'' args) w = w\<lparr>result := Failed (session_error w)\<rparr>)"
  using putval_no_tx [OF assms, of h args] by (simp add: registry_lookup)

lemma putmem_state_handled:
  assumes "tx (STATE w) = None"
  shows "(\<exists>m. HandleCommand h (GhidraTrace ''putmem-state'' args) w = w\<lparr>result := Failed m\<rparr>) \<and>
    (arguments_accepted h ''putmem-state'' args \<longrightarrow>
       HandleCommand h (GhidraTrace ''putmem-state'' args) w = w\<lparr>result := Failed (session_error w)\<rparr>)"
  using putmem_state_no_tx [OF assms, of h args] by (simp add: registry_lookup)

lemma delmem_handled:
  assumes "tx (STATE w) = None"
  shows "(\<exists>m. HandleCommand h (GhidraTrace ''delmem'' args) w = w\<lparr>result := Failed m\<rparr>) \<and>
    (arguments_accepted h ''delmem'' args \<longrightarrow>
       HandleCommand h (GhidraTrace ''delmem'' args) w = w\<lparr>result := Failed (session_error w)\<rparr>)"
  using delmem_no_tx [OF assms, of h args] by (simp add: registry_lookup)

lemma putreg_handled:
  assumes "tx (STATE w) = None"
  shows "(\<exists>m. HandleCommand h (GhidraTrace ''putreg'' args) w = w\<lparr>result := Failed m\<rparr>) \<and>
    (arguments_accepted h ''putreg'' args \<longrightarrow>
       HandleCommand h (GhidraTrace ''putreg'' args) w = w\<lparr>result := Failed (session_error w)\<rparr>)"
  using putreg_no_tx [OF assms, of h args] by (simp add: registry_lookup)

lemma delreg_handled:
  assumes "tx (STATE w) = None"
  shows "(\<exists>m. HandleCommand h (GhidraTrace ''delreg'' args) w = w\<lparr>result := Failed m\<rparr>) \<and>
    (arguments_accepted h ''delreg'' args \<longrightarrow>
       HandleCommand h (GhidraTrace ''delreg'' args) w = w\<lparr>result := Failed (session_error w)\<rparr>)"
  using delreg_no_tx [OF assms, of h args] by (simp add: registry_lookup)

lemma create_obj_handled:
  assumes "tx (STATE w) = None"
  shows "(\<exists>m. HandleCommand h (GhidraTrace ''create-obj'' args) w = w\<lparr>result := Failed m\<rparr>) \<and>
    (arguments_accepted h ''create-obj'' args \<longrightarrow>
       HandleCommand h (GhidraTrace ''create-obj'' args) w = w\<lparr>result := Failed (session_error w)\<rparr>)"
  using create_obj_no_tx [OF assms, of h args] by (simp add: registry_lookup)

lemma insert_obj_handled:
  assumes "tx (STATE w) = None"
  shows "(\<exists>m. HandleCommand h (GhidraTrace ''insert-obj'' args) w = w\<lparr>result := Failed m\<rparr>) \<and>
    (arguments_accepted h ''insert-obj'' args \<longrightarrow>
       HandleCommand h (GhidraTrace ''insert-obj'' args) w = w\<lparr>result := Failed (session_error w)\<rparr>)"
  using insert_obj_no_tx [OF assms, of h args] by (simp add: registry_lookup)

lemma remove_obj_handled:
  assumes "tx (STATE w) = None"
  shows "(\<exists>m. HandleCommand h (GhidraTrace ''remove-obj'' args) w = w\<lparr>result := Failed m\<rparr>) \<and>
    (arguments_accepted h ''remove-obj'' args \<longrightarrow>
       HandleCommand h (GhidraTrace ''remove-obj'' args) w = w\<lparr>result := Failed (session_error w)\<rparr>)"
  using remove_obj_no_tx [OF assms, of h args] by (simp add: registry_lookup)

lemma set_value_handled:
  assumes "tx (STATE w) = None"
  shows "(\<exists>m. HandleCommand h (GhidraTrace ''set-value'' args) w = w\<lparr>result := Failed m\<rparr>) \<and>
    (arguments_accepted h ''set-value'' args \<longrightarrow>
       HandleCommand h (GhidraTrace ''set-value'' args) w = w\<lparr>result := Failed (session_error w)\<rparr>)"
  using set_value_no_tx [OF assms, of h args] by (simp add: registry_lookup)

lemma retain_values_handled:
  assumes "tx (STATE w) = None"
  shows "(\<exists>m. HandleCommand h (GhidraTrace ''retain-values'' args) w = w\<lparr>result := Failed m\<rparr>) \<and>
    (arguments_accepted h ''retain-values'' args \<longrightarrow>
       HandleCommand h (GhidraTrace ''retain-values'' args) w = w\<lparr>result := Failed (session_error w)\<rparr>)"
  using retain_values_no_tx [OF assms, of h args] by (simp add: registry_lookup)

lemma disassemble_handled:
  assumes "tx (STATE w) = None"
  shows "(\<exists>m. HandleCommand h (GhidraTrace ''disassemble'' args) w = w\<lparr>result := Failed m\<rparr>) \<and>
    (arguments_accepted h ''disassemble'' args \<longrightarrow>
       HandleCommand h (GhidraTrace ''disassemble'' args) w = w\<lparr>result := Failed (session_error w)\<rparr>)"
  using disassemble_no_tx [OF assms, of h args] by (simp add: registry_lookup)

lemma put_processes_handled:
  assumes "tx (STATE w) = None"
  shows "(\<exists>m. HandleCommand h (GhidraTrace ''put-processes'' args) w = w\<lparr>result := Failed m\<rparr>) \<and>
    (arguments_accepted h ''put-processes'' args \<longrightarrow>
       HandleCommand h (GhidraTrace ''put-processes'' args) w = w\<lparr>result := Failed (session_error w)\<rparr>)"
  using put_processes_no_tx [OF assms, of h args] by (simp add: registry_lookup)

lemma put_available_handled:
  assumes "tx (STATE w) = None"
  shows "(\<exists>m. HandleCommand h (GhidraTrace ''put-available'' args) w = w\<lparr>result := Failed m\<rparr>) \<and>
    (arguments_accepted h ''put-available'' args \<longrightarrow>
       HandleCommand h (GhidraTrace ''put-available'' args) w = w\<lparr>result := Failed (session_error w)\<rparr>)"
  using put_available_no_tx [OF assms, of h args] by (simp add: registry_lookup)

lemma put_breakpoints_handled:
  assumes "tx (STATE w) = None"
  shows "(\<exists>m. HandleCommand h (GhidraTrace ''put-breakpoints'' args) w = w\<lparr>result := Failed m\<rparr>) \<and>
    (arguments_accepted h ''put-breakpoints'' args \<longrightarrow>
       HandleCommand h (GhidraTrace ''put-breakpoints'' args) w = w\<lparr>result := Failed (session_error w)\<rparr>)"
  using put_breakpoints_no_tx [OF assms, of h args] by (simp add: registry_lookup)

lemma put_watchpoints_handled:
  assumes "tx (STATE w) = None"
  shows "(\<exists>m. HandleCommand h (GhidraTrace ''put-watchpoints'' args) w = w\<lparr>result := Failed m\<rparr>) \<and>
    (arguments_accepted h ''put-watchpoints'' args \<longrightarrow>
       HandleCommand h (GhidraTrace ''put-watchpoints'' args) w = w\<lparr>result := Failed (session_error w)\<rparr>)"
  using put_watchpoints_no_tx [OF assms, of h args] by (simp add: registry_lookup)

lemma put_environment_handled:
  assumes "tx (STATE w) = None"
  shows "(\<exists>m. HandleCommand h (GhidraTrace ''put-environment'' args) w = w\<lparr>result := Failed m\<rparr>) \<and>
    (arguments_accepted h ''put-environment'' args \<longrightarrow>
       HandleCommand h (GhidraTrace ''put-environment'' args) w = w\<lparr>result := Failed (session_error w)\<rparr>)"
  using put_environment_no_tx [OF assms, of h args] by (simp add: registry_lookup)

lemma put_regions_handled:
  assumes "tx (STATE w) = None"
  shows "(\<exists>m. HandleCommand h (GhidraTrace ''put-regions'' args) w = w\<lparr>result := Failed m\<rparr>) \<and>
    (arguments_accepted h ''put-regions'' args \<longrightarrow>
       HandleCommand h (GhidraTrace ''put-regions'' args) w = w\<lparr>result := Failed (session_error w)\<rparr>)"
  using put_regions_no_tx [OF assms, of h args] by (simp add: registry_lookup)

lemma put_modules_handled:
  assumes "tx (STATE w) = None"
  shows "(\<exists>m. HandleCommand h (GhidraTrace ''put-modules'' args) w = w\<lparr>result := Failed m\<rparr>) \<and>
    (arguments_accepted h ''put-modules'' args \<longrightarrow>
       HandleCommand h (GhidraTrace ''put-modules'' args) w = w\<lparr>result := Failed (session_error w)\<rparr>)"
  using put_modules_no_tx [OF assms, of h args] by (simp add: registry_lookup)

lemma put_threads_handled:
  assumes "tx (STATE w) = None"
  shows "(\<exists>m. HandleCommand h (GhidraTrace ''put-threads'' args) w = w\<lparr>result := Failed m\<rparr>) \<and>
    (arguments_accepted h ''put-threads'' args \<longrightarrow>
       HandleCommand h (GhidraTrace ''put-threads'' args) w = w\<lparr>result := Failed (session_error w)\<rparr>)"
  using put_threads_no_tx [OF assms, of h args] by (simp add: registry_lookup)

lemma put_frames_handled:
  assumes "tx (STATE w) = None"
  shows "(\<exists>m. HandleCommand h (GhidraTrace ''put-frames'' args) w = w\<lparr>result := Failed m\<rparr>) \<and>
    (arguments_accepted h ''put-frames'' args \<longrightarrow>
       HandleCommand h (GhidraTrace ''put-frames'' args) w = w\<lparr>result := Failed (session_error w)\<rparr>)"
  using put_frames_no_tx [OF assms, of h args] by (simp add: registry_lookup)

lemma put_all_handled:
  assumes "tx (STATE w) = None"
  shows "(\<exists>m. HandleCommand h (GhidraTrace ''put-all'' args) w = w\<lparr>result := Failed m\<rparr>) \<and>
    (arguments_accepted h ''put-all'' args \<longrightarrow>
       HandleCommand h (GhidraTrace ''put-all'' args) w = w\<lparr>result := Failed (session_error w)\<rparr>)"
  using put_all_no_tx [OF assms, of h args] by (simp add: registry_lookup)

lemmas handled =
  putmem_handled putval_handled putmem_state_handled delmem_handled
  putreg_handled delreg_handled create_obj_handled insert_obj_handled
  remove_obj_handled set_value_handled retain_values_handled disassemble_handled
  put_processes_handled put_available_handled put_breakpoints_handled put_watchpoints_handled
  put_environment_handled put_regions_handled put_modules_handled put_threads_handled
  put_frames_handled put_all_handled

lemma mutating_command_no_tx:
  assumes "name \<in> set mutating_commands" and "tx (STATE w) = None"
    and "name \<noteq> ''new-snap''"
  shows "(\<exists>m. HandleCommand h (GhidraTrace name args) w = w\<lparr>result := Failed m\<rparr>) \<and>
      (arguments_accepted h name args \<longrightarrow>
         HandleCommand h (GhidraTrace name args) w = w\<lparr>result := Failed (session_error w)\<rparr>)"
  using assms(1) unfolding mutating_commands_def
  apply (simp only: list.set insert_iff empty_iff simp_thms)
  apply (elim disjE)
  apply (hypsubst, rule handled [OF assms(2)])+
  using assms(3) apply simp
  done

text \<open>
  Claim C3, as stated, fails, at four inputs. With a connection but no trace, no
  transaction is open, and \<open>putmem\<close> fails with the error of the missing trace, not with
  that of the missing transaction. With a trace but no transaction, \<open>putmem\<close> with an
  argument list it rejects fails with its usage message. With a trace but no transaction,
  \<open>new-snap\<close> does not fail at all: it writes the snapshot. And with a transaction open,
  \<open>tx-start\<close> without its argument fails with its usage message.
\<close>

theorem no_transaction_error_counterexample:
  "tx (STATE connected) = None \<and>
   result (HandleCommand example_host (GhidraTrace ''putmem'' [''4100'', ''4'']) connected) =
     Failed ''No trace active'' \<and>
   tx (STATE traced) = None \<and>
   result (HandleCommand example_host (GhidraTrace ''putmem'' []) traced) =
     Failed ''Usage: ghidra trace putmem ADDRESS LENGTH [PAGES]'' \<and>
   HandleCommand example_host (GhidraTrace ''new-snap'' [''snap'']) traced =
     traced\<lparr>log := [Store (TraceSnapshot ''snap'' None)], result := SuccessFinishNoResult\<rparr> \<and>
   tx (STATE in_transaction) \<noteq> None \<and>
   result (HandleCommand example_host (GhidraTrace ''tx-start'' []) in_transaction) =
     Failed ''Usage: ghidra trace tx-start DESCRIPTION''"
proof -
  have 1: "result (HandleCommand example_host (GhidraTrace ''putmem'' [''4100'', ''4'']) connected) =
      Failed ''No trace active''"
    by (simp add: registry_lookup ghidra_trace_putmem_def convert_errors_def require_tx_def
        require_trace_def bind_def raise_def connected_def)
  have 2: "result (HandleCommand example_host (GhidraTrace ''putmem'' []) traced) =
      Failed ''Usage: ghidra trace putmem ADDRESS LENGTH [PAGES]''"
    by (simp add: registry_lookup ghidra_trace_putmem_def convert_errors_def raise_def)
  have 3: "HandleCommand example_host (GhidraTrace ''new-snap'' [''snap'']) traced =
      traced\<lparr>log := [Store (TraceSnapshot ''snap'' None)], result := SuccessFinishNoResult\<rparr>"
    by (simp add: registry_lookup ghidra_trace_new_snap_def convert_errors_def
        require_trace_def bind_def return_def store_def emit_def traced_def)
  have 4: "result (HandleCommand example_host (GhidraTrace ''tx-start'' []) in_transaction) =
      Failed ''Usage: ghidra trace tx-start DESCRIPTION''"
    by (simp add: registry_lookup ghidra_trace_txstart_def convert_errors_def raise_def)
  have 5: "tx (STATE connected) = None" "tx (STATE traced) = None"
    "tx (STATE in_transaction) \<noteq> None"
    by (simp_all add: connected_def traced_def in_transaction_def)
  from 1 2 3 4 5 show ?thesis by blast
qed

text \<open>
  Claim C3, amended. Every mutating trace command other than \<open>new-snap\<close> (\<open>putmem\<close>,
  \<open>putval\<close>, \<open>putmem-state\<close>, \<open>delmem\<close>, \<open>putreg\<close>, \<open>delreg\<close>, \<open>create-obj\<close>,
  \<open>insert-obj\<close>, \<open>remove-obj\<close>, \<open>set-value\<close>, \<open>retain-values\<close>, \<open>disassemble\<close>, the
  \<open>put-*\<close> synchronizers and \<open>put-all\<close>), invoked while no transaction is open, fails
  before any mutation, whatever its arguments: it leaves the session state and the log of
  calls as they were and only sets the error of the result. When the command accepts its
  arguments (\<open>putreg\<close> with any arguments), that error is \<^verbatim>\<open>No transaction\<close> if a trace is
  active and \<^verbatim>\<open>No trace active\<close> if none is. And \<open>tx-start\<close> with exactly one argument,
  invoked while a transaction is open, fails with \<^verbatim>\<open>Transaction already started\<close>.
\<close>

theorem mutating_commands_require_transaction:
  "(\<forall>name \<in> set mutating_commands.
      name \<noteq> ''new-snap'' \<longrightarrow> tx (STATE w) = None \<longrightarrow>
        (\<exists>m. HandleCommand h (GhidraTrace name args) w = w\<lparr>result := Failed m\<rparr>) \<and>
        (arguments_accepted h name args \<longrightarrow>
           HandleCommand h (GhidraTrace name args) w =
             w\<lparr>result := Failed
               (if trace (STATE w) = None then ''No trace active'' else ''No transaction'')\<rparr>)) \<and>
   (tx (STATE w) \<noteq> None \<longrightarrow>
      HandleCommand h (GhidraTrace ''tx-start'' [description]) w =
        w\<lparr>result := Failed ''Transaction already started''\<rparr>)"
proof (intro conjI ballI impI)
  fix name
  assume n: "name \<in> set mutating_commands" and s: "name \<noteq> ''new-snap''"
    and t: "tx (STATE w) = None"
  from mutating_command_no_tx [OF n t s, of h args]
  have "(\<exists>m. HandleCommand h (GhidraTrace name args) w = w\<lparr>result := Failed m\<rparr>) \<and>
      (arguments_accepted h name args \<longrightarrow>
         HandleCommand h (GhidraTrace name args) w = w\<lparr>result := Failed (session_error w)\<rparr>)" .
  then show "\<exists>m. HandleCommand h (GhidraTrace name args) w = w\<lparr>result := Failed m\<rparr>"
    and "arguments_accepted h name args \<Longrightarrow>
      HandleCommand h (GhidraTrace name args) w =
        w\<lparr>result := Failed
          (if trace (STATE w) = None then ''No trace active'' else ''No transaction'')\<rparr>"
    unfolding session_error_def by blast+
next
  assume "tx (STATE w) \<noteq> None"
  then show "HandleCommand h (GhidraTrace ''tx-start'' [description]) w =
      w\<lparr>result := Failed ''Transaction already started''\<rparr>"
    using txstart_in_transaction [of w h description] by (simp add: registry_lookup)
qed

theorem mutating_commands_require_transaction_witness:
  "HandleCommand example_host (GhidraTrace ''putmem'' [''4100'', ''4'']) traced =
     traced\<lparr>result := Failed ''No transaction''\<rparr> \<and>
   HandleCommand example_host (GhidraTrace ''put-regions'' []) connected =
     connected\<lparr>result := Failed ''No trace active''\<rparr> \<and>
   HandleCommand example_host (GhidraTrace ''putreg'' [''a'', ''b'', ''c'']) traced =
     traced\<lparr>result := Failed ''No transaction''\<rparr> \<and>
   (\<exists>m. HandleCommand example_host (GhidraTrace ''delmem'' []) connected =
     connected\<lparr>result := Failed m\<rparr>) \<and>
   HandleCommand example_host (GhidraTrace ''tx-start'' [''again'']) in_transaction =
     in_transaction\<lparr>result := Failed ''Transaction already started''\<rparr>"
proof -
  have 1: "''putmem'' \<in> set mutating_commands" "''put-regions'' \<in> set mutating_commands"
    "''putreg'' \<in> set mutating_commands" "''delmem'' \<in> set mutating_commands"
    by (simp_all add: mutating_commands_def)
  have 2: "tx (STATE traced) = None" "trace (STATE traced) \<noteq> None"
    by (simp_all add: traced_def)
  have 3: "tx (STATE connected) = None" "trace (STATE connected) = None"
    by (simp_all add: connected_def)
  have 4: "arguments_accepted example_host ''putmem'' [''4100'', ''4'']"
    "arguments_accepted example_host ''put-regions'' []"
    "arguments_accepted example_host ''putreg'' [''a'', ''b'', ''c'']"
    by (simp_all add: arguments_accepted_def)
  have 5: "tx (STATE in_transaction) \<noteq> None"
    by (simp add: in_transaction_def)
  have 6: "''putmem'' \<noteq> ''new-snap''" "''put-regions'' \<noteq> ''new-snap''"
    "''putreg'' \<noteq> ''new-snap''" "''delmem'' \<noteq> ''new-snap''"
    by simp_all
  note t1 = mutating_commands_require_transaction
    [of traced example_host "[''4100'', ''4'']" "''again''", THEN conjunct1, THEN bspec, OF 1(1),
      THEN mp, OF 6(1), THEN mp, OF 2(1), THEN conjunct2, THEN mp, OF 4(1)]
  note t2 = mutating_commands_require_transaction
    [of connected example_host "[]" "''again''", THEN conjunct1, THEN bspec, OF 1(2),
      THEN mp, OF 6(2), THEN mp, OF 3(1), THEN conjunct2, THEN mp, OF 4(2)]
  note t3 = mutating_commands_require_transaction
    [of traced example_host "[''a'', ''b'', ''c'']" "''again''", THEN conjunct1, THEN bspec,
      OF 1(3), THEN mp, OF 6(3), THEN mp, OF 2(1), THEN conjunct2, THEN mp, OF 4(3)]
  note t4 = mutating_commands_require_transaction
    [of connected example_host "[]" "''again''", THEN conjunct1, THEN bspec, OF 1(4),
      THEN mp, OF 6(4), THEN mp, OF 3(1), THEN conjunct1]
  note t5 = mutating_commands_require_transaction
    [of in_transaction example_host "[]" "''again''", THEN conjunct2, THEN mp, OF 5]
  show ?thesis
    using t1 t2 t3 t4 t5 2(2) 3(2) by simp
qed

subsection \<open>Opening a transaction inside a transaction\<close>

lemma example_process_path: "PROCESS_PATTERN 7 = ''Processes[7]''"
  by (simp add: PROCESS_PATTERN_def PROCESS_KEY_PATTERN_def PROCESSES_PATH_def str_int_def
      str_nat.simps [of 7] digit_char_def)

lemma example_process_key: "PROCESS_KEY_PATTERN 7 = ''[7]''"
  by (simp add: PROCESS_KEY_PATTERN_def str_int_def str_nat.simps [of 7] digit_char_def)

lemma example_put_processes:
  "trace (STATE w) = Some t \<Longrightarrow>
   put_processes example_host w =
     (Inr (), w\<lparr>log := log w @
        [Store (CreateObject ''Processes[7]''),
         Store (SetValue ''Processes[7]'' ''State'' (VStr ''STOPPED'') None),
         Store (InsertObject ''Processes[7]''),
         Store (RetainValues ''Processes'' [''[7]''] ''elements'')]\<rparr>)"
  by (simp add: put_processes_def require_trace_def bind_def seq_def return_def store_def
      emit_def Let_def compute_proc_state_def example_host_def example_util_def
      example_process_def example_process_path example_process_key PROCESSES_PATH_def)

lemma example_txstart:
  "HandleCommand example_host (GhidraTrace ''tx-start'' [''first'']) traced =
     \<lparr>STATE = \<lparr>client = Some (Client ''lldb-17.0.6''), trace = Some example_trace,
        tx = Some (Transaction ''first'' False)\<rparr>,
      log = [Store (StartTx (Transaction ''first'' False))],
      result = SuccessFinishNoResult\<rparr>"
  by (simp add: registry_lookup ghidra_trace_txstart_def convert_errors_def require_no_tx_def
      require_trace_def set_tx_def store_def emit_def seq_def bind_def return_def traced_def)

lemma example_put_processes_command:
  "tx (STATE w) = Some x \<Longrightarrow> trace (STATE w) = Some t \<Longrightarrow>
   HandleCommand example_host (GhidraTrace ''put-processes'' []) w =
     w\<lparr>log := log w @
        [Store (CreateObject ''Processes[7]''),
         Store (SetValue ''Processes[7]'' ''State'' (VStr ''STOPPED'') None),
         Store (InsertObject ''Processes[7]''),
         Store (RetainValues ''Processes'' [''[7]''] ''elements'')],
       result := SuccessFinishNoResult\<rparr>"
  by (simp add: registry_lookup ghidra_trace_put_processes_def convert_errors_def
      require_tx_def require_trace_def bind_def return_def example_put_processes)

lemma example_txopen:
  "HandleCommand example_host
     (GhidraTraceTxOpen [''second'', ''ghidra trace put-processes'']
        (GhidraTrace ''put-processes'' []))
     \<lparr>STATE = \<lparr>client = Some (Client ''lldb-17.0.6''), trace = Some example_trace,
        tx = Some (Transaction ''first'' False)\<rparr>,
      log = [Store (StartTx (Transaction ''first'' False))],
      result = SuccessFinishNoResult\<rparr> =
   \<lparr>STATE = \<lparr>client = Some (Client ''lldb-17.0.6''), trace = Some example_trace, tx = None\<rparr>,
    log = [Store (StartTx (Transaction ''first'' False)),
           Store (StartTx (Transaction ''second'' False)),
           Store (CreateObject ''Processes[7]''),
           Store (SetValue ''Processes[7]'' ''State'' (VStr ''STOPPED'') None),
           Store (InsertObject ''Processes[7]''),
           Store (RetainValues ''Processes'' [''[7]''] ''elements''),
           Store (TxCommit (Transaction ''second'' False))],
    result = SuccessFinishNoResult\<rparr>"
  by (simp add: ghidra_trace_txopen_def open_tracked_tx_def convert_errors_def
      require_trace_def set_tx_def reset_tx_def store_def emit_def seq_def bind_def return_def
      example_put_processes_command [where x = "Transaction ''second'' False"
        and t = example_trace] del: HandleCommand.simps(1))

text \<open>
  Claim C4 does not hold of the code. \<open>tx-start\<close> refuses to start a transaction while
  the session has one, but \<open>tx-open\<close> does not look: invoked while the transaction of
  \<open>tx-start\<close> is open, it starts a second transaction on the trace, so two exist at a time.
  It then puts the second in the session's place of the first, commits the second and
  clears the session's transaction: the first is never committed or aborted, and the
  session no longer holds it.
\<close>

theorem txopen_starts_second_transaction:
  "STATE (run [(example_host, GhidraTrace ''tx-start'' [''first''])] traced) =
     \<lparr>client = Some (Client ''lldb-17.0.6''), trace = Some example_trace,
      tx = Some (Transaction ''first'' False)\<rparr> \<and>
   run [(example_host, GhidraTrace ''tx-start'' [''first'']),
        (example_host, GhidraTraceTxOpen [''second'', ''ghidra trace put-processes'']
           (GhidraTrace ''put-processes'' []))] traced =
     \<lparr>STATE = \<lparr>client = Some (Client ''lldb-17.0.6''), trace = Some example_trace, tx = None\<rparr>,
      log = [Store (StartTx (Transaction ''first'' False)),
             Store (StartTx (Transaction ''second'' False)),
             Store (CreateObject ''Processes[7]''),
             Store (SetValue ''Processes[7]'' ''State'' (VStr ''STOPPED'') None),
             Store (InsertObject ''Processes[7]''),
             Store (RetainValues ''Processes'' [''[7]''] ''elements''),
             Store (TxCommit (Transaction ''second'' False))],
      result = SuccessFinishNoResult\<rparr>"
  by (simp add: example_txstart example_txopen del: HandleCommand.simps)

subsection \<open>Actions that leave the session state alone\<close>

lemma keep_return: "STATE (snd (return x w)) = STATE w"
  by (simp add: return_def)

lemma keep_raise: "STATE (snd (raise e w)) = STATE w"
  by (simp add: raise_def)

lemma keep_lift: "STATE (snd (lift r w)) = STATE w"
  by (simp add: lift_def)

lemma keep_emit: "STATE (snd (emit ev w)) = STATE w"
  by (simp add: emit_def)

lemma keep_store: "STATE (snd (store c w)) = STATE w"
  by (simp add: store_def emit_def)

lemma keep_bind:
  assumes "\<And>w. STATE (snd (m w)) = STATE w" and "\<And>x w. STATE (snd (f x w)) = STATE w"
  shows "STATE (snd (bind m f w)) = STATE w"
proof (cases "m w")
  case (Pair r w')
  with assms(1) [of w] have "STATE w' = STATE w" by simp
  with Pair assms(2) show ?thesis
    by (cases r) (simp_all add: bind_def)
qed

lemma keep_seq:
  assumes "\<And>w. STATE (snd (m w)) = STATE w" and "\<And>w. STATE (snd (n w)) = STATE w"
  shows "STATE (snd (seq m n w)) = STATE w"
  unfolding seq_def using assms by (rule keep_bind)

lemma keep_when_do:
  assumes "\<And>w. STATE (snd (m w)) = STATE w"
  shows "STATE (snd (when_do b m w)) = STATE w"
  using assms by (simp add: when_do_def return_def)

lemma keep_for_each:
  assumes "\<And>x w. STATE (snd (f x w)) = STATE w"
  shows "STATE (snd (for_each xs f w)) = STATE w"
proof (induction xs arbitrary: w)
  case Nil
  show ?case by (simp add: return_def)
next
  case (Cons x xs)
  show ?case
    unfolding for_each.simps by (rule keep_seq) (rule assms, rule Cons.IH)
qed

lemma keep_require_client: "STATE (snd (require_client w)) = STATE w"
  by (simp add: require_client_def raise_def return_def split: option.splits)

lemma keep_require_trace: "STATE (snd (require_trace w)) = STATE w"
  by (simp add: require_trace_def raise_def return_def split: option.splits)

lemma keep_require_tx: "STATE (snd (require_tx w)) = STATE w"
  by (simp add: require_tx_def require_trace_def bind_def raise_def return_def
      split: option.splits)

lemma keep_require_mm: "STATE (snd (require_mm ex w)) = STATE w"
  by (simp add: require_mm_def raise_def return_def split: option.splits)

lemma keep_require_rm: "STATE (snd (require_rm ex w)) = STATE w"
  by (simp add: require_rm_def raise_def return_def split: option.splits)

lemma keep_convert_errors:
  assumes "\<And>w. STATE (snd (m w)) = STATE w"
  shows "STATE (convert_errors m w) = STATE w"
proof (cases "m (w\<lparr>result := Cleared\<rparr>)")
  case (Pair r w')
  with assms [of "w\<lparr>result := Cleared\<rparr>"] have "STATE w' = STATE w" by simp
  with Pair show ?thesis
    by (cases r) (simp_all add: convert_errors_def)
qed

lemma keep_embed:
  assumes "\<And>w. STATE (c w) = STATE w"
  shows "STATE (snd ((Inr (), c w) :: (error + unit) \<times> world)) = STATE w"
  using assms by simp

lemmas keeps =
  keep_return keep_raise keep_lift keep_emit keep_store keep_bind keep_seq keep_when_do
  keep_for_each keep_require_client keep_require_trace keep_require_tx keep_require_mm
  keep_require_rm

lemma keep_put_bytes: "STATE (snd (put_bytes h s e r p w)) = STATE w"
  unfolding put_bytes_def
  by (auto intro!: keeps simp: Let_def split: prod.splits option.splits put_bytes_count.splits)

lemma keep_eval_address: "STATE (snd (eval_address h a w)) = STATE w"
  unfolding eval_address_def by (auto intro!: keeps split: sum.splits)

lemma keep_eval_range: "STATE (snd (eval_range h a l w)) = STATE w"
  unfolding eval_range_def by (auto intro!: keeps keep_eval_address split: sum.splits)

lemma keep_putmem: "STATE (snd (putmem h a l r p w)) = STATE w"
  unfolding putmem_def by (auto intro!: keeps keep_eval_range keep_put_bytes)

lemma keep_putval_body: "STATE (snd (putval_body h e p w)) = STATE w"
  unfolding putval_body_def
  by (auto intro!: keeps keep_put_bytes simp: Let_def split: sum.splits)

lemma keep_putmem_state: "STATE (snd (putmem_state h a l s p w)) = STATE w"
  unfolding putmem_state_def
  by (auto intro!: keeps keep_eval_range simp: Let_def split: prod.splits option.splits)

lemma keep_the_selected_thread: "STATE (snd (the_selected_thread h a w)) = STATE w"
  unfolding the_selected_thread_def by (auto intro!: keeps split: option.splits)

lemma keep_the_selected_frame: "STATE (snd (the_selected_frame h a w)) = STATE w"
  unfolding the_selected_frame_def by (auto intro!: keeps split: option.splits)

lemma keep_putreg_items: "STATE (snd (putreg_items m b items vs w)) = STATE w"
proof (induction items arbitrary: vs w)
  case Nil
  show ?case by (simp add: return_def)
next
  case (Cons item items)
  show ?case
    unfolding putreg_items.simps by (intro keeps Cons.IH)
qed

lemma keep_putreg: "STATE (snd (putreg h f b w)) = STATE w"
  unfolding putreg_def
  by (auto intro!: keeps keep_the_selected_thread keep_putreg_items simp: Let_def)

lemma keep_putreg_group: "STATE (snd (putreg_group h g w)) = STATE w"
  unfolding putreg_group_def
  by (auto intro!: keeps keep_the_selected_frame keep_putreg simp: Let_def)

lemma keep_collect_mapped_names: "STATE (snd (collect_mapped_names h b w)) = STATE w"
  unfolding collect_mapped_names_def by (auto intro!: keeps)

lemma keep_collect_all_names: "STATE (snd (collect_all_names h bs ns w)) = STATE w"
proof (induction bs arbitrary: ns w)
  case Nil
  show ?case by (simp add: return_def)
next
  case (Cons b bs)
  show ?case
    unfolding collect_all_names.simps by (intro keeps keep_collect_mapped_names Cons.IH)
qed

lemma keep_delreg_group: "STATE (snd (delreg_group h g w)) = STATE w"
  unfolding delreg_group_def
  by (auto intro!: keeps keep_the_selected_frame keep_the_selected_thread
      keep_collect_all_names keep_collect_mapped_names simp: Let_def)

lemma keep_string_result: "STATE (snd (string_result r s w)) = STATE w"
  unfolding string_result_def by (auto intro!: keeps split: sum.splits)

lemma keep_int_result: "STATE (snd (int_result r s w)) = STATE w"
  unfolding int_result_def by (auto intro!: keeps split: sum.splits)

lemma keep_convert_array: "STATE (snd (convert_array h e v s t w)) = STATE w"
  unfolding convert_array_def
  by (auto intro!: keeps keep_string_result simp: Let_def split: sum.splits option.splits)

lemma keep_convert_value: "STATE (snd (convert_value h e v s w)) = STATE w"
  unfolding convert_value_def
  by (auto intro!: keeps keep_int_result keep_convert_array simp: Let_def
      split: sum.splits option.splits prod.splits)

lemma keep_eval_value: "STATE (snd (eval_value h e s w)) = STATE w"
  unfolding eval_value_def by (auto intro!: keeps keep_convert_value)

lemma keep_set_value_body: "STATE (snd (set_value_body h p k v s w)) = STATE w"
  unfolding set_value_body_def
  by (auto intro!: keeps keep_eval_value split: converted.splits prod.splits)

lemma keep_put_processes: "STATE (snd (put_processes h w)) = STATE w"
  unfolding put_processes_def by (auto intro!: keeps simp: Let_def)

lemma keep_put_available: "STATE (snd (put_available h w)) = STATE w"
  unfolding put_available_def by (auto intro!: keeps simp: Let_def split: prod.splits)

lemma keep_put_break_loc: "STATE (snd (put_break_loc b p m path il w)) = STATE w"
  unfolding put_break_loc_def by (auto intro!: keeps simp: Let_def split: prod.splits)

lemma keep_put_single_breakpoint: "STATE (snd (put_single_breakpoint h b p w)) = STATE w"
  unfolding put_single_breakpoint_def
  by (auto intro!: keeps keep_put_break_loc simp: Let_def split: option.splits)

lemma keep_put_single_watchpoint: "STATE (snd (put_single_watchpoint h wp p w)) = STATE w"
  unfolding put_single_watchpoint_def
  by (auto intro!: keeps simp: Let_def split: prod.splits)

lemma keep_put_breakpoints: "STATE (snd (put_breakpoints h w)) = STATE w"
  unfolding put_breakpoints_def
  by (auto intro!: keeps keep_put_single_breakpoint simp: Let_def)

lemma keep_put_watchpoints: "STATE (snd (put_watchpoints h w)) = STATE w"
  unfolding put_watchpoints_def
  by (auto intro!: keeps keep_put_single_watchpoint simp: Let_def)

lemma keep_put_environment: "STATE (snd (put_environment h w)) = STATE w"
  unfolding put_environment_def by (auto intro!: keeps simp: Let_def)

lemma keep_put_section: "STATE (snd (put_section m path ss w)) = STATE w"
  unfolding put_section_def by (auto intro!: keeps simp: Let_def split: prod.splits)

lemma keep_put_module: "STATE (snd (put_module h m mm w)) = STATE w"
  unfolding put_module_def
  by (auto intro!: keeps keep_put_section simp: Let_def split: prod.splits)

lemma keep_put_modules: "STATE (snd (put_modules h w)) = STATE w"
  unfolding put_modules_def by (auto intro!: keeps keep_put_module simp: Let_def)

lemma keep_put_thread: "STATE (snd (put_thread p r t w)) = STATE w"
  unfolding put_thread_def by (auto intro!: keeps simp: Let_def)

lemma keep_put_threads: "STATE (snd (put_threads h w)) = STATE w"
  unfolding put_threads_def by (auto intro!: keeps keep_put_thread simp: Let_def)

lemma keep_put_frame: "STATE (snd (put_frame p m t f w)) = STATE w"
  unfolding put_frame_def by (auto intro!: keeps simp: Let_def split: prod.splits)

lemma keep_put_frames: "STATE (snd (put_frames h w)) = STATE w"
  unfolding put_frames_def
  by (auto intro!: keeps keep_put_frame simp: Let_def split: option.splits)

lemma keep_put_region: "STATE (snd (put_region h m r w)) = STATE w"
  by (simp add: put_region_log)

lemma keep_put_regions: "STATE (snd (put_regions h w)) = STATE w"
  unfolding put_regions_def by (auto intro!: keeps keep_put_region simp: Let_def)

lemmas keep_bodies =
  keep_put_bytes keep_eval_address keep_eval_range keep_putmem keep_putval_body
  keep_putmem_state keep_putreg_group keep_delreg_group keep_set_value_body
  keep_put_processes keep_put_available keep_put_breakpoints keep_put_watchpoints
  keep_put_environment keep_put_modules keep_put_threads keep_put_frames keep_put_regions

lemma putmem_keeps: "STATE (ghidra_trace_putmem h args w) = STATE w"
  unfolding ghidra_trace_putmem_def
  by (rule keep_convert_errors) (auto intro!: keeps keep_bodies simp: Let_def split: list.splits)

lemma putval_keeps: "STATE (ghidra_trace_putval h args w) = STATE w"
  unfolding ghidra_trace_putval_def
  by (rule keep_convert_errors) (auto intro!: keeps keep_bodies simp: Let_def split: list.splits)

lemma putmem_state_keeps: "STATE (ghidra_trace_putmem_state h args w) = STATE w"
  unfolding ghidra_trace_putmem_state_def
  by (rule keep_convert_errors) (auto intro!: keeps keep_bodies simp: Let_def split: list.splits)

lemma delmem_keeps: "STATE (ghidra_trace_delmem h args w) = STATE w"
  unfolding ghidra_trace_delmem_def
  by (rule keep_convert_errors) (auto intro!: keeps keep_bodies simp: Let_def split: list.splits prod.splits)

lemma putreg_keeps: "STATE (ghidra_trace_putreg h args w) = STATE w"
  unfolding ghidra_trace_putreg_def
  by (rule keep_convert_errors) (auto intro!: keeps keep_bodies simp: Let_def split: list.splits)

lemma delreg_keeps: "STATE (ghidra_trace_delreg h args w) = STATE w"
  unfolding ghidra_trace_delreg_def
  by (rule keep_convert_errors) (auto intro!: keeps keep_bodies simp: Let_def split: list.splits)

lemma create_obj_keeps: "STATE (ghidra_trace_create_obj h args w) = STATE w"
  unfolding ghidra_trace_create_obj_def
  by (rule keep_convert_errors) (auto intro!: keeps keep_bodies simp: Let_def split: list.splits)

lemma insert_obj_keeps: "STATE (ghidra_trace_insert_obj h args w) = STATE w"
  unfolding ghidra_trace_insert_obj_def
  by (rule keep_convert_errors) (auto intro!: keeps keep_bodies simp: Let_def split: list.splits)

lemma remove_obj_keeps: "STATE (ghidra_trace_remove_obj h args w) = STATE w"
  unfolding ghidra_trace_remove_obj_def
  by (rule keep_convert_errors) (auto intro!: keeps keep_bodies simp: Let_def split: list.splits)

lemma set_value_keeps: "STATE (ghidra_trace_set_value h args w) = STATE w"
  unfolding ghidra_trace_set_value_def
  by (rule keep_convert_errors) (auto intro!: keeps keep_bodies simp: Let_def split: list.splits)

lemma retain_values_keeps: "STATE (ghidra_trace_retain_values h args w) = STATE w"
  unfolding ghidra_trace_retain_values_def
  by (rule keep_convert_errors) (auto intro!: keeps keep_bodies simp: Let_def split: list.splits prod.splits)

lemma disassemble_keeps: "STATE (ghidra_trace_disassemble h args w) = STATE w"
  unfolding ghidra_trace_disassemble_def
  by (rule keep_convert_errors) (auto intro!: keeps keep_bodies simp: Let_def split: list.splits prod.splits)

lemma put_processes_keeps: "STATE (ghidra_trace_put_processes h args w) = STATE w"
  unfolding ghidra_trace_put_processes_def
  by (rule keep_convert_errors) (auto intro!: keeps keep_bodies simp: Let_def)

lemma put_available_keeps: "STATE (ghidra_trace_put_available h args w) = STATE w"
  unfolding ghidra_trace_put_available_def
  by (rule keep_convert_errors) (auto intro!: keeps keep_bodies simp: Let_def)

lemma put_breakpoints_keeps: "STATE (ghidra_trace_put_breakpoints h args w) = STATE w"
  unfolding ghidra_trace_put_breakpoints_def
  by (rule keep_convert_errors) (auto intro!: keeps keep_bodies simp: Let_def)

lemma put_watchpoints_keeps: "STATE (ghidra_trace_put_watchpoints h args w) = STATE w"
  unfolding ghidra_trace_put_watchpoints_def
  by (rule keep_convert_errors) (auto intro!: keeps keep_bodies simp: Let_def)

lemma put_environment_keeps: "STATE (ghidra_trace_put_environment h args w) = STATE w"
  unfolding ghidra_trace_put_environment_def
  by (rule keep_convert_errors) (auto intro!: keeps keep_bodies simp: Let_def)

lemma put_regions_keeps: "STATE (ghidra_trace_put_regions h args w) = STATE w"
  unfolding ghidra_trace_put_regions_def
  by (rule keep_convert_errors) (auto intro!: keeps keep_bodies simp: Let_def)

lemma put_modules_keeps: "STATE (ghidra_trace_put_modules h args w) = STATE w"
  unfolding ghidra_trace_put_modules_def
  by (rule keep_convert_errors) (auto intro!: keeps keep_bodies simp: Let_def)

lemma put_threads_keeps: "STATE (ghidra_trace_put_threads h args w) = STATE w"
  unfolding ghidra_trace_put_threads_def
  by (rule keep_convert_errors) (auto intro!: keeps keep_bodies simp: Let_def)

lemma put_frames_keeps: "STATE (ghidra_trace_put_frames h args w) = STATE w"
  unfolding ghidra_trace_put_frames_def
  by (rule keep_convert_errors) (auto intro!: keeps keep_bodies simp: Let_def)

lemma save_keeps: "STATE (ghidra_trace_save h args w) = STATE w"
  unfolding ghidra_trace_save_def
  by (rule keep_convert_errors) (auto intro!: keeps keep_bodies simp: Let_def)

lemma new_snap_keeps: "STATE (ghidra_trace_new_snap h args w) = STATE w"
  unfolding ghidra_trace_new_snap_def
  by (rule keep_convert_errors) (auto intro!: keeps keep_bodies simp: Let_def split: list.splits)

lemma put_all_keeps: "STATE (ghidra_trace_put_all h args w) = STATE w"
  unfolding ghidra_trace_put_all_def
  by (rule keep_convert_errors)
    (auto intro!: keeps keep_bodies simp: putreg_keeps putmem_keeps)

lemmas command_keeps =
  putmem_keeps putval_keeps putmem_state_keeps delmem_keeps putreg_keeps
  delreg_keeps create_obj_keeps insert_obj_keeps remove_obj_keeps set_value_keeps
  retain_values_keeps disassemble_keeps put_processes_keeps put_available_keeps put_breakpoints_keeps
  put_watchpoints_keeps put_environment_keeps put_regions_keeps put_modules_keeps put_threads_keeps
  put_frames_keeps save_keeps new_snap_keeps put_all_keeps

end
